theory Spec2Isabelle
  imports Complex_Main
begin

section \<open>Strings\<close>

text \<open>
  Python strings are modelled as HOL strings: lists of characters with code points
  below 256. The helpers below are the string methods of Python that the update
  manager calls.
\<close>

definition startswith :: "string \<Rightarrow> string \<Rightarrow> bool" where
  "startswith s p = (take (length p) s = p)"

definition endswith :: "string \<Rightarrow> string \<Rightarrow> bool" where
  "endswith s p = (length p \<le> length s \<and> drop (length s - length p) s = p)"

text \<open>\<open>s.split(d)\<close> for a one-character separator: never empty, one more field than separators.\<close>

fun split_on :: "char \<Rightarrow> string \<Rightarrow> string list" where
  "split_on d [] = [[]]"
| "split_on d (c # cs) =
     (if c = d then [] # split_on d cs
      else (case split_on d cs of [] \<Rightarrow> [[c]] | w # ws \<Rightarrow> (c # w) # ws))"

section \<open>Errors\<close>

text \<open>
  The exceptions that reach the code modelled here. \<open>RequestException\<close> stands for what
  \<open>requests\<close> raises for a request or a status, \<open>ChunkedEncodingError\<close> for what it raises
  when a body breaks off while it is read, \<open>ClosedResponseError\<close> for whatever the reading
  of a response raises once the response is closed.
\<close>

datatype error =
    DownloadInterruptedException
  | ValueError
  | OSError
  | RequestException
  | ChunkedEncodingError
  | ClosedResponseError

section \<open>GithubUpdater: descriptor parsing\<close>

record url_data =
  username :: string
  repo :: string
  release :: string
  filename :: string
  tag_name :: string

text \<open>
  \<open>urllib.parse.urlsplit\<close>, restricted to what \<open>get_url_data\<close> reads from it (\<open>netloc\<close> and
  \<open>path\<close>) and to the inputs it is called on (strings that start with \<open>https://\<close>):
  tab, carriage return and line feed are removed, the network location runs from behind
  the two slashes to the first of \<open>/ ? #\<close>, a network location with one square bracket
  and not the other raises \<open>ValueError\<close>, and the path ends before the first \<open>#\<close> or \<open>?\<close>.
\<close>

definition unsafe_url_byte :: "char \<Rightarrow> bool" where
  "unsafe_url_byte c = (c = CHR 0x09 \<or> c = CHR 0x0D \<or> c = CHR 0x0A)"

definition netloc_end :: "char \<Rightarrow> bool" where
  "netloc_end c = (c = CHR ''/'' \<or> c = CHR ''?'' \<or> c = CHR ''#'')"

definition urlsplit :: "string \<Rightarrow> error + (string \<times> string)" where
  "urlsplit url =
     (let u = filter (\<lambda>c. \<not> unsafe_url_byte c) url;
          rest = drop 8 u;
          netloc = takeWhile (\<lambda>c. \<not> netloc_end c) rest;
          tail = dropWhile (\<lambda>c. \<not> netloc_end c) rest;
          path = takeWhile (\<lambda>c. c \<noteq> CHR ''?'') (takeWhile (\<lambda>c. c \<noteq> CHR ''#'') tail)
      in if (CHR ''['' \<in> set netloc) \<noteq> (CHR '']'' \<in> set netloc) then Inl ValueError
         else Inr (netloc, path))"

text \<open>The tail of \<open>get_url_data\<close>: split at \<open>|\<close>, five fields or \<open>False\<close> (here \<open>None\<close>).\<close>

definition split_items :: "string \<Rightarrow> string \<Rightarrow> url_data option" where
  "split_items tag url =
     (let items = split_on CHR ''|'' url
      in if length items \<noteq> 5 then None
         else Some \<lparr> username = items ! 1, repo = items ! 2, release = items ! 3,
                     filename = items ! 4, tag_name = tag \<rparr>)"

definition get_url_data :: "string \<Rightarrow> error + url_data option" where
  "get_url_data url =
     (if startswith url ''https://'' then
        (case urlsplit url of
           Inl e \<Rightarrow> Inl e
         | Inr (netloc, path) \<Rightarrow>
             if netloc \<noteq> ''github.com'' then Inr None
             else
               (let paths = split_on CHR ''/'' path
                in if length paths \<noteq> 7 then Inr None
                   else if paths ! 3 \<noteq> ''releases'' \<or> paths ! 4 \<noteq> ''download'' then Inr None
                   else Inr (split_items (paths ! 5)
                          (''|'' @ paths ! 1 @ ''|'' @ paths ! 2 @ ''|'' @ ''latest'' @ ''|'' @ paths ! 6))))
      else Inr (split_items ''*'' url))"

text \<open>\<open>get_url_data(url) != False\<close>: a dictionary is never equal to \<open>False\<close>.\<close>

definition github_can_handle_link :: "string \<Rightarrow> error + bool" where
  "github_can_handle_link url =
     (case get_url_data url of Inl e \<Rightarrow> Inl e | Inr r \<Rightarrow> Inr (r \<noteq> None))"

text \<open>A path segment of a URL: no \<open>/ ? #\<close>, and none of the bytes \<open>urlsplit\<close> removes.\<close>

definition path_segment :: "string \<Rightarrow> bool" where
  "path_segment s = list_all (\<lambda>c. \<not> netloc_end c \<and> \<not> unsafe_url_byte c) s"

definition release_url :: "string \<Rightarrow> string \<Rightarrow> string \<Rightarrow> string \<Rightarrow> string" where
  "release_url O' R T F =
     ''https://github.com/'' @ O' @ ''/'' @ R @ ''/releases/download/'' @ T @ ''/'' @ F"

definition pipe_form :: "string \<Rightarrow> string \<Rightarrow> string \<Rightarrow> string \<Rightarrow> string \<Rightarrow> string" where
  "pipe_form t ow r s f = t @ ''|'' @ ow @ ''|'' @ r @ ''|'' @ s @ ''|'' @ f"

section \<open>Numbers in headers\<close>

text \<open>
  \<open>str.isspace\<close> on code points below 256, which is also what \<open>\s\<close> matches in a
  \<open>str\<close> pattern and what \<open>str.strip()\<close> removes.
\<close>

definition py_isspace :: "char \<Rightarrow> bool" where
  "py_isspace c = (let n = (of_char c :: nat)
     in (9 \<le> n \<and> n \<le> 13) \<or> (28 \<le> n \<and> n \<le> 32) \<or> n = 133 \<or> n = 160)"

definition strip :: "string \<Rightarrow> string" where
  "strip s = rev (dropWhile py_isspace (rev (dropWhile py_isspace s)))"

definition digit_of :: "char \<Rightarrow> nat option" where
  "digit_of c = (let n = (of_char c :: nat) in if 48 \<le> n \<and> n \<le> 57 then Some (n - 48) else None)"

text \<open>The digits behind the first one: a single \<open>_\<close> may stand between two digits.\<close>

fun more_digits :: "nat \<Rightarrow> string \<Rightarrow> nat option" where
  "more_digits acc [] = Some acc"
| "more_digits acc [c] = (case digit_of c of None \<Rightarrow> None | Some v \<Rightarrow> Some (10 * acc + v))"
| "more_digits acc (c # d # ds) =
     (if c = CHR ''_'' then
        (case digit_of d of None \<Rightarrow> None | Some v \<Rightarrow> more_digits (10 * acc + v) ds)
      else (case digit_of c of None \<Rightarrow> None | Some v \<Rightarrow> more_digits (10 * acc + v) (d # ds)))"

text \<open>
  \<open>int(s)\<close> for a string: surrounding white space is dropped, then an optional sign and a
  decimal numeral; anything else raises \<open>ValueError\<close> (here \<open>None\<close>).
\<close>

definition unsigned_int :: "string \<Rightarrow> nat option" where
  "unsigned_int s = (case s of [] \<Rightarrow> None
     | c # cs \<Rightarrow> (case digit_of c of None \<Rightarrow> None | Some v \<Rightarrow> more_digits v cs))"

definition py_int :: "string \<Rightarrow> int option" where
  "py_int s =
     (case strip s of
        [] \<Rightarrow> None
      | c # cs \<Rightarrow>
          if c = CHR ''-'' then map_option (\<lambda>n. - int n) (unsigned_int cs)
          else if c = CHR ''+'' then map_option int (unsigned_int cs)
          else map_option int (unsigned_int (c # cs)))"

section \<open>HTTP and the file system\<close>

text \<open>
  A response of \<open>requests\<close>: its status, its headers (a case-insensitive dictionary, here a
  map from lower-case names) and, for a streamed body, the chunks that
  \<open>iter_content(block_size)\<close> yields in order.
\<close>

type_synonym headers = "string \<rightharpoonup> string"

record response =
  status_code :: nat
  resp_headers :: headers
  body :: "string list"

text \<open>
  An asset and a release as the GitHub API describes them: the fields that the program
  reads.
\<close>

record asset =
  asset_name :: string
  browser_download_url :: string
  asset_id :: int
  asset_size :: int
  content_type :: string

record release =
  release_tag_name :: string
  assets :: "asset list"

text \<open>
  What the program observes of its surroundings: the replies to \<open>requests.head\<close> and
  \<open>requests.get\<close> (an exception or a response), how the iteration over the body of the
  reply to \<open>requests.get\<close> ends behind its last chunk (it just ends, or \<open>iter_content\<close>
  raises, as it does for a connection that breaks or a body shorter than announced), the
  size of each file that exists, the
  release that the GitHub API describes at an address (the request, \<open>raise_for_status\<close>
  and the decoding of the JSON text in one), what \<open>readelf --string-dump=.upd_info\<close> prints
  for a file, and what \<open>arch\<close> prints.
\<close>

record world =
  head_request :: "string \<Rightarrow> error + response"
  get_request :: "string \<Rightarrow> error + response"
  stream_end :: "string \<Rightarrow> error option"
  file_size :: "string \<rightharpoonup> nat"
  api_release :: "string \<Rightarrow> error + release"
  readelf :: "string \<Rightarrow> string"
  arch :: string

text \<open>\<open>Response.raise_for_status\<close> raises for the client and server error statuses.\<close>

definition raise_for_status :: "response \<Rightarrow> error + unit" where
  "raise_for_status r =
     (if 400 \<le> status_code r \<and> status_code r < 600 then Inl RequestException else Inr ())"

definition getsize :: "world \<Rightarrow> string \<Rightarrow> error + nat" where
  "getsize w path = (case file_size w path of None \<Rightarrow> Inl OSError | Some n \<Rightarrow> Inr n)"

datatype io = HEAD string | GET string | CLOSE

section \<open>StaticFileUpdater\<close>

record AppImageListElement =
  file_path :: string

record static_file_updater =
  self_url :: string
  currend_download :: "response option"
  self_embedded :: bool

text \<open>
  \<open>get_url_headers\<close>: each of the two \<open>try\<close> blocks catches every \<open>Exception\<close>. The result
  comes with the requests issued and the closing of the streamed body, in order; in the
  second block \<open>r.close()\<close> is followed by the closing of the \<open>with\<close> statement.
\<close>

definition get_url_headers :: "world \<Rightarrow> string \<Rightarrow> (error + headers) \<times> io list" where
  "get_url_headers w u =
     (case (case head_request w u of
              Inl e \<Rightarrow> Inl e
            | Inr resp \<Rightarrow> (case raise_for_status resp of
                 Inl e \<Rightarrow> Inl e | Inr _ \<Rightarrow> Inr (resp_headers resp))) of
        Inr hs \<Rightarrow> (Inr hs, [HEAD u])
      | Inl e \<Rightarrow>
          (case get_request w u of
             Inl e' \<Rightarrow> (Inr Map.empty, [HEAD u, GET u])
           | Inr r \<Rightarrow> (case raise_for_status r of
                Inl e' \<Rightarrow> (Inr Map.empty, [HEAD u, GET u, CLOSE])
              | Inr _ \<Rightarrow> (Inr (resp_headers r), [HEAD u, GET u, CLOSE, CLOSE]))))"

text \<open>
  \<open>is_update_available\<close>: \<open>int(headers.get('content-length', '0'))\<close>, then the size of the
  installed file, then the comparison.
\<close>

definition header_or :: "headers \<Rightarrow> string \<Rightarrow> string \<Rightarrow> string" where
  "header_or hs k d = (case hs k of None \<Rightarrow> d | Some v \<Rightarrow> v)"

definition is_update_available :: "world \<Rightarrow> static_file_updater \<Rightarrow> AppImageListElement \<Rightarrow> error + bool" where
  "is_update_available w self el =
     (case fst (get_url_headers w (self_url self)) of
        Inl e \<Rightarrow> Inl e
      | Inr hs \<Rightarrow>
          (case py_int (header_or hs ''content-length'' ''0'') of
             None \<Rightarrow> Inl ValueError
           | Some resp_cl \<Rightarrow>
               (case getsize w (file_path el) of
                  Inl e \<Rightarrow> Inl e
                | Inr old_size \<Rightarrow>
                    if resp_cl = 0 then Inr False else Inr (resp_cl \<noteq> int old_size))))"

text \<open>
  The truth value of a response, as in \<open>if self.currend_download:\<close>: a response of
  \<open>requests\<close> is true when \<open>raise_for_status\<close> would not raise.
\<close>

definition response_bool :: "response \<Rightarrow> bool" where
  "response_bool r = (raise_for_status r = Inr ())"

text \<open>\<open>cancel_download\<close>, with the closing of the response as its effect.\<close>

definition cancel_download :: "static_file_updater \<Rightarrow> static_file_updater \<times> io list" where
  "cancel_download self =
     (case currend_download self of
        None \<Rightarrow> (self, [])
      | Some r \<Rightarrow>
          if response_bool r then (self\<lparr> currend_download := None \<rparr>, [CLOSE]) else (self, []))"

text \<open>
  The local variables of \<open>download\<close> that its loop changes: the bytes in the file, the
  counter \<open>status\<close>, and the arguments \<open>status_update_cb\<close> has been called with so far.
  The quotient \<open>status / total_size\<close> of two integers is kept as a rational number.
\<close>

record locals =
  file_bytes :: string
  status :: int
  calls :: "rat list"

definition block_size :: int where
  "block_size = 1024"

text \<open>One turn of the loop: write the chunk, add the block size, report when a size is known.\<close>

definition write_chunk :: "int \<Rightarrow> string \<Rightarrow> locals \<Rightarrow> locals" where
  "write_chunk total_size chunk l =
     (let st = status l + block_size
      in \<lparr> file_bytes = file_bytes l @ chunk,
           status = st,
           calls = (if total_size \<noteq> 0 then calls l @ [of_int st / of_int total_size] else calls l) \<rparr>)"

fun write_chunks :: "int \<Rightarrow> string list \<Rightarrow> locals \<Rightarrow> locals" where
  "write_chunks total_size [] l = l"
| "write_chunks total_size (chunk # chunks) l =
     write_chunks total_size chunks (write_chunk total_size chunk l)"

text \<open>
  What iterating over a response does once the response has been closed by
  \<open>cancel_download\<close> is decided by \<open>requests\<close>, not by this program: the iteration ends, or
  it raises. Both are modelled.
\<close>

datatype closed_read = StopIteration | RaiseError

text \<open>
  What a call of \<open>download\<close> leaves behind: the value returned or the exception raised, the
  calls of \<open>status_update_cb\<close>, the bytes written to the file, and the object.
\<close>

record outcome =
  result :: "error + string \<times> string"
  reported :: "rat list"
  written :: string
  self_after :: static_file_updater

text \<open>
  \<open>download\<close>. \<open>fname\<close> is the path built from the download folder and the random name;
  the file is opened for writing anew, so it holds what this call writes. The callback is
  recorded, not run. The loop has no handler, so what \<open>iter_content\<close> raises behind the
  last chunk leaves \<open>download\<close>. \<open>cancel_at = Some k\<close> is a run in which another thread calls
  \<open>cancel_download\<close> when the loop has handled \<open>k\<close> chunks and more are to come;
  \<open>None\<close> is a run without it.
\<close>

definition download ::
  "world \<Rightarrow> closed_read \<Rightarrow> nat option \<Rightarrow> string \<Rightarrow> static_file_updater \<Rightarrow> outcome" where
  "download w cr cancel_at fname self =
     (case get_request w (self_url self) of
        Inl e \<Rightarrow> \<lparr> result = Inl e, reported = [], written = [], self_after = self \<rparr>
      | Inr resp \<Rightarrow>
          (let self1 = self\<lparr> currend_download := Some resp \<rparr>;
               etag = header_or (resp_headers resp) ''etag'' []
           in case (case resp_headers resp ''content-length'' of
                      None \<Rightarrow> Some 0 | Some v \<Rightarrow> py_int v) of
                None \<Rightarrow> \<lparr> result = Inl ValueError, reported = [], written = [], self_after = self1 \<rparr>
              | Some total_size \<Rightarrow>
                  (let start = \<lparr> file_bytes = [], status = 0, calls = [] \<rparr>;
                       cancelled = (case cancel_at of
                          None \<Rightarrow> None
                        | Some k \<Rightarrow>
                            if k < length (body resp) \<and> snd (cancel_download self1) \<noteq> []
                            then Some k else None)
                   in case cancelled of
                        None \<Rightarrow>
                          (let l = write_chunks total_size (body resp) start
                           in case stream_end w (self_url self) of
                                Some e \<Rightarrow>
                                  \<lparr> result = Inl e, reported = calls l, written = file_bytes l,
                                    self_after = self1 \<rparr>
                              | None \<Rightarrow>
                                  if int (length (file_bytes l)) < total_size
                                  then \<lparr> result = Inl DownloadInterruptedException,
                                         reported = calls l, written = file_bytes l,
                                         self_after = self1 \<rparr>
                                  else \<lparr> result = Inr (fname, etag), reported = calls l,
                                         written = file_bytes l,
                                         self_after = self1\<lparr> currend_download := None \<rparr> \<rparr>)
                      | Some k \<Rightarrow>
                          (let l = write_chunks total_size (take k (body resp)) start;
                               self2 = fst (cancel_download self1)
                           in if cr = RaiseError
                              then \<lparr> result = Inl ClosedResponseError, reported = calls l,
                                     written = file_bytes l, self_after = self2 \<rparr>
                              else if int (length (file_bytes l)) < total_size
                              then \<lparr> result = Inl DownloadInterruptedException, reported = calls l,
                                     written = file_bytes l, self_after = self2 \<rparr>
                              else \<lparr> result = Inr (fname, etag), reported = calls l,
                                     written = file_bytes l,
                                     self_after = self2\<lparr> currend_download := None \<rparr> \<rparr>))))"

text \<open>
  A request has failed, for \<open>get_url_headers\<close>, when \<open>requests\<close> raised or
  \<open>raise_for_status\<close> does.
\<close>

definition request_failed :: "error + response \<Rightarrow> bool" where
  "request_failed x = (case x of Inl e \<Rightarrow> True | Inr r \<Rightarrow> raise_for_status r \<noteq> Inr ())"

text \<open>
  Two sample surroundings: a server that answers HEAD and GET with status 200, the given
  headers and the given chunks, beside the given files; and a server that answers HEAD
  with 405 and GET with 200 and the given headers.
\<close>

definition serving :: "headers \<Rightarrow> string list \<Rightarrow> (string \<rightharpoonup> nat) \<Rightarrow> world" where
  "serving hs chunks files =
     \<lparr> head_request = (\<lambda>u. Inr \<lparr> status_code = 200, resp_headers = hs, body = [] \<rparr>),
       get_request = (\<lambda>u. Inr \<lparr> status_code = 200, resp_headers = hs, body = chunks \<rparr>),
       stream_end = (\<lambda>u. None), file_size = files, api_release = (\<lambda>u. Inl RequestException),
       readelf = (\<lambda>p. []), arch = ''x86_64'' \<rparr>"

definition head_refused :: "headers \<Rightarrow> world" where
  "head_refused hs =
     \<lparr> head_request = (\<lambda>u. Inr \<lparr> status_code = 405, resp_headers = Map.empty, body = [] \<rparr>),
       get_request = (\<lambda>u. Inr \<lparr> status_code = 200, resp_headers = hs, body = [] \<rparr>),
       stream_end = (\<lambda>u. None), file_size = Map.empty, api_release = (\<lambda>u. Inl RequestException),
       readelf = (\<lambda>p. []), arch = ''x86_64'' \<rparr>"

text \<open>
  A server that answers as \<open>serving\<close> does, but whose body breaks off behind the given
  chunks, so that \<open>iter_content\<close> raises the given exception.
\<close>

definition breaking :: "headers \<Rightarrow> string list \<Rightarrow> error \<Rightarrow> world" where
  "breaking hs chunks e = (serving hs chunks Map.empty)\<lparr> stream_end := (\<lambda>u. Some e) \<rparr>"

text \<open>No network: every request raises.\<close>

definition offline :: world where
  "offline =
     \<lparr> head_request = (\<lambda>u. Inl RequestException), get_request = (\<lambda>u. Inl RequestException),
       stream_end = (\<lambda>u. None), file_size = Map.empty, api_release = (\<lambda>u. Inl RequestException),
       readelf = (\<lambda>p. []), arch = ''x86_64'' \<rparr>"

section \<open>UpdateManagerChecker: embedded update information\<close>

definition newline :: char where
  "newline = CHR 0x0A"

text \<open>\<open>readelf_out.replace('\n', ' ') + ' '\<close>\<close>

definition flatten :: "string \<Rightarrow> string" where
  "flatten s = map (\<lambda>c. if c = newline then CHR '' '' else c) s @ '' ''"

text \<open>
  The pattern \<open>gh-releases-zsync\|.*(.zsync)\<close>. \<open>gh_tail s\<close> is the length of the match of
  \<open>.*(.zsync)\<close> at the start of \<open>s\<close>: the star is greedy, so the match is the longest one,
  and a dot matches every character but the line feed. \<open>search_gh\<close> is \<open>re.search\<close>: the
  match at the leftmost position that has one.
\<close>

fun gh_tail :: "string \<Rightarrow> nat option" where
  "gh_tail [] = None"
| "gh_tail (c # cs) =
     (if c = newline then None
      else (case gh_tail cs of
              Some n \<Rightarrow> Some (Suc n)
            | None \<Rightarrow> if startswith cs ''zsync'' then Some 6 else None))"

fun search_gh :: "string \<Rightarrow> string option" where
  "search_gh [] = None"
| "search_gh (c # cs) =
     (if startswith (c # cs) ''gh-releases-zsync|'' then
        (case gh_tail (drop 18 (c # cs)) of
           Some n \<Rightarrow> Some (take (18 + n) (c # cs))
         | None \<Rightarrow> search_gh cs)
      else search_gh cs)"

text \<open>
  The pattern \<open>^zsync\|http(.*)\s\<close>, searched without flags: \<open>^\<close> is the start of the string
  only. \<open>link_tail s\<close> is the length of the greedy match of \<open>(.*)\s\<close> at the start of \<open>s\<close>.
\<close>

fun link_tail :: "string \<Rightarrow> nat option" where
  "link_tail [] = None"
| "link_tail (c # cs) =
     (case (if c = newline then None else link_tail cs) of
        Some n \<Rightarrow> Some (Suc n)
      | None \<Rightarrow> if py_isspace c then Some 1 else None)"

definition search_link :: "string \<Rightarrow> string option" where
  "search_link s =
     (if startswith s ''zsync|http'' then
        (case link_tail (drop 10 s) of Some n \<Rightarrow> Some (take (10 + n) s) | None \<Rightarrow> None)
      else None)"

text \<open>\<open>re.sub(r"^zsync\|", '', m)\<close>\<close>

definition sub_zsync_prefix :: "string \<Rightarrow> string" where
  "sub_zsync_prefix m = (if startswith m ''zsync|'' then drop 6 m else m)"

definition check_app :: "world \<Rightarrow> AppImageListElement \<Rightarrow> string option" where
  "check_app w el =
     (let readelf_out = flatten (readelf w (file_path el))
      in case search_gh readelf_out of
           Some m \<Rightarrow> Some (strip m)
         | None \<Rightarrow>
             (case search_link readelf_out of
                Some m \<Rightarrow> Some (strip (sub_zsync_prefix m))
              | None \<Rightarrow> None))"

text \<open>Surroundings in which \<open>readelf\<close> prints the given text for every file.\<close>

definition dumping :: "string \<Rightarrow> world" where
  "dumping out = offline\<lparr> readelf := (\<lambda>p. out) \<rparr>"

section \<open>GithubUpdater: the target asset\<close>

record github_updater =
  gh_url_data :: url_data
  gh_embedded :: bool

text \<open>
  \<open>convert_glob_to_regex\<close> followed by \<open>re.match\<close>: every character but \<open>*\<close> stands for
  itself, \<open>*\<close> is \<open>.*\<close> (any characters but line feeds), and the pattern is anchored:
  \<open>$\<close> is the end of the string, or the place before a line feed that ends it.
\<close>

fun glob_match :: "string \<Rightarrow> string \<Rightarrow> bool" where
  "glob_match [] s = (s = [] \<or> s = [newline])"
| "glob_match (p # ps) s =
     (if p = CHR ''*'' then
        glob_match ps s \<or> (case s of [] \<Rightarrow> False | c # cs \<Rightarrow> c \<noteq> newline \<and> glob_match (p # ps) cs)
      else (case s of [] \<Rightarrow> False | c # cs \<Rightarrow> c = p \<and> glob_match ps cs))"

text \<open>\<open>re.sub(r'\.zsync$', '', s)\<close>, with the same reading of \<open>$\<close>.\<close>

definition sub_zsync_suffix :: "string \<Rightarrow> string" where
  "sub_zsync_suffix s =
     (if endswith s ''.zsync'' then take (length s - 6) s
      else if endswith s (''.zsync'' @ [newline]) then take (length s - 7) s @ [newline]
      else s)"

text \<open>
  The searches \<open>(\-|\_|\.)x86(\-|\_|\.)\<close> and \<open>(\-|\_|\.)(arm64|aarch64|armv7l)(\-|\_|\.)\<close>:
  one of the tokens, with a separator on each side, somewhere in the name.
\<close>

definition arch_sep :: "char \<Rightarrow> bool" where
  "arch_sep c = (c = CHR ''-'' \<or> c = CHR ''_'' \<or> c = CHR ''.'')"

definition token_here :: "string list \<Rightarrow> string \<Rightarrow> bool" where
  "token_here tokens s =
     list_ex (\<lambda>m. startswith s m \<and>
        (case drop (length m) s of [] \<Rightarrow> False | d # ds \<Rightarrow> arch_sep d)) tokens"

fun search_token :: "string list \<Rightarrow> string \<Rightarrow> bool" where
  "search_token tokens [] = False"
| "search_token tokens (c # cs) = ((arch_sep c \<and> token_here tokens cs) \<or> search_token tokens cs)"

definition is_x86 :: "string \<Rightarrow> bool" where
  "is_x86 n = search_token [''x86''] n"

definition is_arm :: "string \<Rightarrow> bool" where
  "is_arm n = search_token [''arm64'', ''aarch64'', ''armv7l''] n"

text \<open>
  The first loop of \<open>fetch_target_asset\<close>: with \<open>embedded\<close> the first asset that matches
  and ends in \<open>.zsync\<close>, alone; otherwise every asset that matches.
\<close>

fun first_zsync :: "string \<Rightarrow> asset list \<Rightarrow> asset list" where
  "first_zsync pat [] = []"
| "first_zsync pat (a # as) =
     (if glob_match pat (asset_name a) \<and> endswith (asset_name a) ''.zsync'' then [a]
      else first_zsync pat as)"

definition possible_targets :: "github_updater \<Rightarrow> release \<Rightarrow> asset list" where
  "possible_targets self rel =
     (if gh_embedded self then first_zsync (filename (gh_url_data self)) (assets rel)
      else filter (\<lambda>a. glob_match (filename (gh_url_data self)) (asset_name a)) (assets rel))"

text \<open>The choice of \<open>zsync_file\<close> among the possible targets.\<close>

definition arch_ok :: "asset \<Rightarrow> bool" where
  "arch_ok t = (is_x86 (asset_name t) \<or> \<not> is_arm (asset_name t))"

definition zsync_file :: "string \<Rightarrow> asset list \<Rightarrow> asset option" where
  "zsync_file system_arch targets =
     (case targets of
        [t] \<Rightarrow> Some t
      | _ \<Rightarrow> if system_arch = ''x86_64'' then find arch_ok targets else None)"

definition rel_url :: "github_updater \<Rightarrow> string" where
  "rel_url self =
     ''https://api.github.com/repos/'' @ username (gh_url_data self) @ ''/'' @ repo (gh_url_data self)
       @ ''/releases/'' @ release (gh_url_data self)"

definition fetch_target_asset :: "world \<Rightarrow> github_updater \<Rightarrow> asset option" where
  "fetch_target_asset w self =
     (case api_release w (rel_url self) of
        Inl e \<Rightarrow> None
      | Inr rel_data \<Rightarrow>
          if \<not> glob_match (tag_name (gh_url_data self)) (release_tag_name rel_data) then None
          else
            (case zsync_file (arch w) (possible_targets self rel_data) of
               None \<Rightarrow> None
             | Some z \<Rightarrow>
                 find (\<lambda>a. asset_name a = sub_zsync_suffix (asset_name z)) (assets rel_data)))"

text \<open>Surroundings in which the GitHub API describes the given release, on the given machine.\<close>

definition releasing :: "string \<Rightarrow> release \<Rightarrow> world" where
  "releasing machine rel = offline\<lparr> api_release := (\<lambda>u. Inr rel), arch := machine \<rparr>"

text \<open>A sample asset of a given name, and a sample updater for \<open>app-*.AppImage\<close> of any tag.\<close>

definition named_asset :: "string \<Rightarrow> asset" where
  "named_asset n =
     \<lparr> asset_name = n, browser_download_url = ''https://github.com/acme/app/releases/download/v1/'' @ n,
       asset_id = int (length n), asset_size = 4096, content_type = ''application/octet-stream'' \<rparr>"

definition app_updater :: github_updater where
  "app_updater =
     \<lparr> gh_url_data = \<lparr> username = ''acme'', repo = ''app'', release = ''latest'',
                       filename = ''app-*.AppImage'', tag_name = ''*'' \<rparr>,
       gh_embedded = False \<rparr>"

section \<open>UpdateManagerChecker: dispatch\<close>

datatype model = StaticFileUpdater | DynamicUpdater | GithubUpdater

definition get_models :: "model list" where
  "get_models = [StaticFileUpdater, DynamicUpdater, GithubUpdater]"

text \<open>The object that \<open>m(url)\<close> or \<open>m(embedded_app_data, embedded=True)\<close> constructs.\<close>

record update_manager =
  manager_class :: model
  manager_url :: string
  manager_embedded :: bool

text \<open>
  The loop \<open>for m in models: if m.can_handle_link(s): return m\<close>. The three
  \<open>can_handle_link\<close> ask the network, and \<open>check_url\<close> only uses their answers (or the
  exception they raise), so they are a parameter; the one of \<open>GithubUpdater\<close> is
  \<open>github_can_handle_link\<close>.
\<close>

fun first_accepting :: "(model \<Rightarrow> string \<Rightarrow> error + bool) \<Rightarrow> model list \<Rightarrow> string \<Rightarrow> error + model option" where
  "first_accepting can_handle_link [] s = Inr None"
| "first_accepting can_handle_link (m # ms) s =
     (case can_handle_link m s of
        Inl e \<Rightarrow> Inl e
      | Inr ok \<Rightarrow> if ok then Inr (Some m) else first_accepting can_handle_link ms s)"

definition candidates :: "model option \<Rightarrow> model list" where
  "candidates forced =
     (case forced of None \<Rightarrow> get_models | Some md \<Rightarrow> filter (\<lambda>m. m = md) get_models)"

definition check_raw_url ::
  "(model \<Rightarrow> string \<Rightarrow> error + bool) \<Rightarrow> model list \<Rightarrow> string option \<Rightarrow> error + update_manager option" where
  "check_raw_url can_handle_link models link =
     (case link of
        None \<Rightarrow> Inr None
      | Some u \<Rightarrow>
          if u = [] then Inr None
          else (case first_accepting can_handle_link models u of
                  Inl e \<Rightarrow> Inl e
                | Inr None \<Rightarrow> Inr None
                | Inr (Some m) \<Rightarrow>
                    Inr (Some \<lparr> manager_class = m, manager_url = u, manager_embedded = False \<rparr>)))"

definition check_url ::
  "(model \<Rightarrow> string \<Rightarrow> error + bool) \<Rightarrow> world \<Rightarrow> string option \<Rightarrow> AppImageListElement option
     \<Rightarrow> model option \<Rightarrow> error + update_manager option" where
  "check_url can_handle_link w link el forced =
     (let models = candidates forced
      in case (case el of None \<Rightarrow> None | Some e \<Rightarrow> check_app w e) of
           None \<Rightarrow> check_raw_url can_handle_link models link
         | Some embedded_app_data \<Rightarrow>
             if embedded_app_data = [] then check_raw_url can_handle_link models link
             else (case first_accepting can_handle_link models embedded_app_data of
                     Inl e \<Rightarrow> Inl e
                   | Inr (Some m) \<Rightarrow>
                       Inr (Some \<lparr> manager_class = m, manager_url = embedded_app_data,
                                   manager_embedded = True \<rparr>)
                   | Inr None \<Rightarrow> check_raw_url can_handle_link models link))"

text \<open>
  Sample answers of the three \<open>can_handle_link\<close>: the static variant declines, the dynamic
  one takes every \<open>https\<close> address, and GithubUpdater answers as its own code does.
\<close>

definition sample_can_handle_link :: "model \<Rightarrow> string \<Rightarrow> error + bool" where
  "sample_can_handle_link m s =
     (case m of
        StaticFileUpdater \<Rightarrow> Inr False
      | DynamicUpdater \<Rightarrow> Inr (startswith s ''https://'')
      | GithubUpdater \<Rightarrow> github_can_handle_link s)"

section \<open>Facts about splitting\<close>

lemma split_on_not_Nil: "split_on d s \<noteq> []"
  by (induction s) (auto split: list.splits)

lemma split_on_no_sep: "d \<notin> set w \<Longrightarrow> split_on d w = [w]"
  by (induction w) auto

lemma split_on_field: "d \<notin> set w \<Longrightarrow> split_on d (w @ d # rest) = w # split_on d rest"
  by (induction w) auto

lemma length_split_on: "length (split_on d s) = Suc (count_list s d)"
  by (induction s) (auto split: list.splits simp: split_on_not_Nil)

lemma split_on_five:
  assumes "d \<notin> set a" "d \<notin> set b" "d \<notin> set c" "d \<notin> set e" "d \<notin> set f"
  shows "split_on d (a @ d # b @ d # c @ d # e @ d # f) = [a, b, c, e, f]"
  using assms by (simp add: split_on_field split_on_no_sep)

lemma split_items_pipe_form:
  assumes "CHR ''|'' \<notin> set t" "CHR ''|'' \<notin> set ow" "CHR ''|'' \<notin> set r"
    "CHR ''|'' \<notin> set s" "CHR ''|'' \<notin> set f"
  shows "split_items tag (pipe_form t ow r s f) =
    Some \<lparr> username = ow, repo = r, release = s, filename = f, tag_name = tag \<rparr>"
  using split_on_five [OF assms] by (simp add: split_items_def pipe_form_def)

lemma path_segment_set:
  "path_segment s \<Longrightarrow> c \<in> set s \<Longrightarrow> \<not> netloc_end c \<and> \<not> unsafe_url_byte c"
  by (simp add: path_segment_def list_all_iff)

lemma path_segment_filter: "path_segment s \<Longrightarrow> filter (\<lambda>c. \<not> unsafe_url_byte c) s = s"
  by (simp add: path_segment_def list_all_iff)

lemma path_segment_no_slash: "path_segment s \<Longrightarrow> CHR ''/'' \<notin> set s"
  by (auto simp: path_segment_def list_all_iff netloc_end_def)

lemma urlsplit_release_url:
  assumes "path_segment O'" "path_segment R" "path_segment T" "path_segment F"
  shows "urlsplit (release_url O' R T F) =
    Inr (''github.com'', ''/'' @ O' @ ''/'' @ R @ ''/releases/download/'' @ T @ ''/'' @ F)"
proof -
  let ?p = "''/'' @ O' @ ''/'' @ R @ ''/releases/download/'' @ T @ ''/'' @ F"
  have flt: "filter (\<lambda>c. \<not> unsafe_url_byte c) (release_url O' R T F) = release_url O' R T F"
  proof -
    have "\<forall>c \<in> set (release_url O' R T F). \<not> unsafe_url_byte c"
      using assms by (auto simp: release_url_def unsafe_url_byte_def dest!: path_segment_set)
    then show ?thesis by (subst filter_id_conv) blast
  qed
  have rest: "drop 8 (release_url O' R T F) = ''github.com'' @ ?p"
    by (simp add: release_url_def)
  have nl: "takeWhile (\<lambda>c. \<not> netloc_end c) (''github.com'' @ ?p) = ''github.com''"
    by (simp add: netloc_end_def)
  have tl: "dropWhile (\<lambda>c. \<not> netloc_end c) (''github.com'' @ ?p) = ?p"
    by (simp add: netloc_end_def)
  have noq: "\<forall>c \<in> set ?p. c \<noteq> CHR ''#'' \<and> c \<noteq> CHR ''?''"
    using assms by (auto simp: netloc_end_def dest!: path_segment_set)
  have p1: "takeWhile (\<lambda>c. c \<noteq> CHR ''#'') ?p = ?p"
    using noq by (subst takeWhile_eq_all_conv) blast
  have p2: "takeWhile (\<lambda>c. c \<noteq> CHR ''?'') ?p = ?p"
    using noq by (subst takeWhile_eq_all_conv) blast
  show ?thesis
    unfolding urlsplit_def flt rest nl tl Let_def p1 p2 by simp
qed

lemma split_on_release_path:
  assumes "CHR ''/'' \<notin> set O'" "CHR ''/'' \<notin> set R" "CHR ''/'' \<notin> set T" "CHR ''/'' \<notin> set F"
  shows "split_on CHR ''/'' (''/'' @ O' @ ''/'' @ R @ ''/releases/download/'' @ T @ ''/'' @ F) =
    [[], O', R, ''releases'', ''download'', T, F]"
  using assms by (simp add: split_on_field split_on_no_sep)

lemma get_url_data_release_url:
  assumes seg: "path_segment O'" "path_segment R" "path_segment T" "path_segment F"
    and bar: "CHR ''|'' \<notin> set O'" "CHR ''|'' \<notin> set R" "CHR ''|'' \<notin> set F"
  shows "get_url_data (release_url O' R T F) =
    Inr (Some \<lparr> username = O', repo = R, release = ''latest'', filename = F, tag_name = T \<rparr>)"
proof -
  have sw: "startswith (release_url O' R T F) ''https://''"
    by (simp add: startswith_def release_url_def)
  have sp: "split_on CHR ''/'' (''/'' @ O' @ ''/'' @ R @ ''/releases/download/'' @ T @ ''/'' @ F) =
      [[], O', R, ''releases'', ''download'', T, F]"
    using seg by (intro split_on_release_path path_segment_no_slash)
  have "split_items T (pipe_form [] O' R ''latest'' F) =
      Some \<lparr> username = O', repo = R, release = ''latest'', filename = F, tag_name = T \<rparr>"
    using bar by (intro split_items_pipe_form) simp_all
  then have it: "split_items T (''|'' @ O' @ ''|'' @ R @ ''|'' @ ''latest'' @ ''|'' @ F) =
      Some \<lparr> username = O', repo = R, release = ''latest'', filename = F, tag_name = T \<rparr>"
    by (simp add: pipe_form_def)
  show ?thesis
    unfolding get_url_data_def urlsplit_release_url [OF seg]
    using sw by (simp add: sp it Let_def del: append.simps)
qed

lemma get_url_data_pipe_form:
  assumes "CHR ''|'' \<notin> set t" "CHR ''|'' \<notin> set ow" "CHR ''|'' \<notin> set r"
    "CHR ''|'' \<notin> set s" "CHR ''|'' \<notin> set f"
    and "\<not> startswith (pipe_form t ow r s f) ''https://''"
  shows "get_url_data (pipe_form t ow r s f) =
    Inr (Some \<lparr> username = ow, repo = r, release = s, filename = f, tag_name = ''*'' \<rparr>)"
  using assms by (simp add: get_url_data_def split_items_pipe_form)

lemma get_url_data_rejects:
  assumes sw: "startswith url ''https://''"
    and no: "\<not> (\<exists>path. urlsplit url = Inr (''github.com'', path) \<and> length (split_on CHR ''/'' path) = 7)"
  shows "(\<forall>d. get_url_data url \<noteq> Inr (Some d)) \<and> github_can_handle_link url \<noteq> Inr True"
proof (cases "urlsplit url")
  case (Inl e)
  with sw show ?thesis
    by (simp add: get_url_data_def github_can_handle_link_def)
next
  case (Inr np)
  obtain netloc path where np: "np = (netloc, path)" by (cases np)
  from no Inr np have "netloc \<noteq> ''github.com'' \<or> length (split_on CHR ''/'' path) \<noteq> 7"
    by auto
  then have "get_url_data url = Inr None"
    using sw Inr np by (auto simp: get_url_data_def Let_def)
  then show ?thesis
    by (simp add: github_can_handle_link_def)
qed

section \<open>Claims about GithubUpdater.get\_url\_data\<close>

text \<open>
  C5. Descriptor parsing of GithubUpdater. (1) A pipe-form descriptor with exactly five
  \<open>|\<close>-delimited fields parses to owner, repository, release selector and file name taken
  from fields two to five, with the tag pattern \<open>*\<close>. (2) A URL
  \<open>https://github.com/O/R/releases/download/T/F\<close>, whose four parts are path segments and
  whose \<open>O\<close>, \<open>R\<close>, \<open>F\<close> hold no \<open>|\<close>, parses to owner \<open>O\<close>, repository \<open>R\<close>, release
  selector \<open>latest\<close>, file name \<open>F\<close> and tag pattern \<open>T\<close>. (3) A string that starts with
  \<open>https://\<close> and whose host is not \<open>github.com\<close>, or whose path does not split into seven
  segments, is not parsed: the result is never a descriptor and \<open>can_handle_link\<close> is never
  true.
\<close>

theorem get_url_data_grammar:
  "(CHR ''|'' \<notin> set t \<union> set ow \<union> set r \<union> set s \<union> set f \<and>
      \<not> startswith (pipe_form t ow r s f) ''https://'' \<longrightarrow>
        get_url_data (pipe_form t ow r s f) =
          Inr (Some \<lparr> username = ow, repo = r, release = s, filename = f, tag_name = ''*'' \<rparr>))
   \<and> (path_segment O' \<and> path_segment R \<and> path_segment T \<and> path_segment F \<and>
      CHR ''|'' \<notin> set O' \<union> set R \<union> set F \<longrightarrow>
        get_url_data (release_url O' R T F) =
          Inr (Some \<lparr> username = O', repo = R, release = ''latest'', filename = F, tag_name = T \<rparr>))
   \<and> (startswith url ''https://'' \<and>
      \<not> (\<exists>path. urlsplit url = Inr (''github.com'', path) \<and> length (split_on CHR ''/'' path) = 7) \<longrightarrow>
        (\<forall>d. get_url_data url \<noteq> Inr (Some d)) \<and> github_can_handle_link url \<noteq> Inr True)"
proof -
  have 1: "CHR ''|'' \<notin> set t \<union> set ow \<union> set r \<union> set s \<union> set f \<and>
      \<not> startswith (pipe_form t ow r s f) ''https://'' \<longrightarrow>
        get_url_data (pipe_form t ow r s f) =
          Inr (Some \<lparr> username = ow, repo = r, release = s, filename = f, tag_name = ''*'' \<rparr>)"
    using get_url_data_pipe_form by simp
  have 2: "path_segment O' \<and> path_segment R \<and> path_segment T \<and> path_segment F \<and>
      CHR ''|'' \<notin> set O' \<union> set R \<union> set F \<longrightarrow>
        get_url_data (release_url O' R T F) =
          Inr (Some \<lparr> username = O', repo = R, release = ''latest'', filename = F, tag_name = T \<rparr>)"
    using get_url_data_release_url by simp
  have 3: "startswith url ''https://'' \<and>
      \<not> (\<exists>path. urlsplit url = Inr (''github.com'', path) \<and> length (split_on CHR ''/'' path) = 7) \<longrightarrow>
        (\<forall>d. get_url_data url \<noteq> Inr (Some d)) \<and> github_can_handle_link url \<noteq> Inr True"
    using get_url_data_rejects by blast
  show ?thesis
    by (rule conjI [OF 1 conjI [OF 2 3]])
qed

theorem get_url_data_grammar_witness:
  "(CHR ''|'' \<notin> set ''gh-releases-zsync'' \<union> set ''probono'' \<union> set ''AppImages'' \<union> set ''latest''
        \<union> set ''Subsurface-*x86_64.AppImage.zsync'' \<and>
      \<not> startswith (pipe_form ''gh-releases-zsync'' ''probono'' ''AppImages'' ''latest''
           ''Subsurface-*x86_64.AppImage.zsync'') ''https://'')
   \<and> get_url_data ''gh-releases-zsync|probono|AppImages|latest|Subsurface-*x86_64.AppImage.zsync'' =
        Inr (Some \<lparr> username = ''probono'', repo = ''AppImages'', release = ''latest'',
                    filename = ''Subsurface-*x86_64.AppImage.zsync'', tag_name = ''*'' \<rparr>)
   \<and> (path_segment ''acme'' \<and> path_segment ''widget'' \<and> path_segment ''v1.2'' \<and>
        path_segment ''widget-x86_64.AppImage'' \<and>
        CHR ''|'' \<notin> set ''acme'' \<union> set ''widget'' \<union> set ''widget-x86_64.AppImage'')
   \<and> get_url_data ''https://github.com/acme/widget/releases/download/v1.2/widget-x86_64.AppImage'' =
        Inr (Some \<lparr> username = ''acme'', repo = ''widget'', release = ''latest'',
                    filename = ''widget-x86_64.AppImage'', tag_name = ''v1.2'' \<rparr>)
   \<and> (startswith ''https://github.com/acme/widget/releases'' ''https://'' \<and>
        \<not> (\<exists>path. urlsplit ''https://github.com/acme/widget/releases'' = Inr (''github.com'', path) \<and>
             length (split_on CHR ''/'' path) = 7))
   \<and> (\<forall>d. get_url_data ''https://github.com/acme/widget/releases'' \<noteq> Inr (Some d))
   \<and> github_can_handle_link ''https://github.com/acme/widget/releases'' \<noteq> Inr True"
proof -
  let ?t = "''gh-releases-zsync''" and ?f = "''Subsurface-*x86_64.AppImage.zsync''"
  let ?u = "''https://github.com/acme/widget/releases''"
  have a: "CHR ''|'' \<notin> set ?t \<union> set ''probono'' \<union> set ''AppImages'' \<union> set ''latest'' \<union> set ?f \<and>
      \<not> startswith (pipe_form ?t ''probono'' ''AppImages'' ''latest'' ?f) ''https://''"
    by (simp add: startswith_def pipe_form_def)
  have b: "path_segment ''acme'' \<and> path_segment ''widget'' \<and> path_segment ''v1.2'' \<and>
      path_segment ''widget-x86_64.AppImage'' \<and>
      CHR ''|'' \<notin> set ''acme'' \<union> set ''widget'' \<union> set ''widget-x86_64.AppImage''"
    by (simp add: path_segment_def netloc_end_def unsafe_url_byte_def)
  have c: "startswith ?u ''https://'' \<and>
      \<not> (\<exists>path. urlsplit ?u = Inr (''github.com'', path) \<and> length (split_on CHR ''/'' path) = 7)"
    by (simp add: startswith_def urlsplit_def netloc_end_def unsafe_url_byte_def)
  note g = get_url_data_grammar [of ?t "''probono''" "''AppImages''" "''latest''" ?f
      "''acme''" "''widget''" "''v1.2''" "''widget-x86_64.AppImage''" ?u]
  from g a have ra: "get_url_data (pipe_form ?t ''probono'' ''AppImages'' ''latest'' ?f) =
      Inr (Some \<lparr> username = ''probono'', repo = ''AppImages'', release = ''latest'',
                  filename = ?f, tag_name = ''*'' \<rparr>)"
    by blast
  from g b have rb: "get_url_data (release_url ''acme'' ''widget'' ''v1.2'' ''widget-x86_64.AppImage'') =
      Inr (Some \<lparr> username = ''acme'', repo = ''widget'', release = ''latest'',
                  filename = ''widget-x86_64.AppImage'', tag_name = ''v1.2'' \<rparr>)"
    by blast
  from g c have rc: "(\<forall>d. get_url_data ?u \<noteq> Inr (Some d)) \<and> github_can_handle_link ?u \<noteq> Inr True"
    by blast
  from ra have ra': "get_url_data ''gh-releases-zsync|probono|AppImages|latest|Subsurface-*x86_64.AppImage.zsync'' =
      Inr (Some \<lparr> username = ''probono'', repo = ''AppImages'', release = ''latest'',
                  filename = ?f, tag_name = ''*'' \<rparr>)"
    by (simp add: pipe_form_def)
  from rb have rb': "get_url_data ''https://github.com/acme/widget/releases/download/v1.2/widget-x86_64.AppImage'' =
      Inr (Some \<lparr> username = ''acme'', repo = ''widget'', release = ''latest'',
                  filename = ''widget-x86_64.AppImage'', tag_name = ''v1.2'' \<rparr>)"
    by (simp add: release_url_def)
  from a ra' b rb' c rc show ?thesis by blast
qed

text \<open>
  C10. A string that does not start with \<open>https://\<close> and holds exactly four \<open>|\<close> is parsed
  by \<open>get_url_data\<close>, whatever its first field is, and \<open>can_handle_link\<close> is true of it: the
  fields two to five become owner, repository, release selector and file name.
\<close>

theorem leading_tag_not_validated:
  assumes "\<not> startswith url ''https://''" and "count_list url CHR ''|'' = 4"
  shows "get_url_data url =
      Inr (Some \<lparr> username = split_on CHR ''|'' url ! 1, repo = split_on CHR ''|'' url ! 2,
                  release = split_on CHR ''|'' url ! 3, filename = split_on CHR ''|'' url ! 4,
                  tag_name = ''*'' \<rparr>)
    \<and> github_can_handle_link url = Inr True"
  using assms
  by (simp add: get_url_data_def github_can_handle_link_def split_items_def length_split_on Let_def)

theorem leading_tag_not_validated_witness:
  "\<not> startswith ''a|b|c|d|e'' ''https://'' \<and> count_list ''a|b|c|d|e'' CHR ''|'' = 4
   \<and> get_url_data ''a|b|c|d|e'' =
      Inr (Some \<lparr> username = ''b'', repo = ''c'', release = ''d'', filename = ''e'', tag_name = ''*'' \<rparr>)
   \<and> github_can_handle_link ''a|b|c|d|e'' = Inr True"
proof -
  have h1: "\<not> startswith ''a|b|c|d|e'' ''https://''"
    by (simp add: startswith_def)
  have h2: "count_list ''a|b|c|d|e'' CHR ''|'' = 4"
    by simp
  have sp: "split_on CHR ''|'' ''a|b|c|d|e'' = [''a'', ''b'', ''c'', ''d'', ''e'']"
    by simp
  from leading_tag_not_validated [OF h1 h2] h1 h2 show ?thesis
    unfolding sp by simp
qed

section \<open>Claims about the header probe and the size comparison\<close>

lemma py_int_zero: "py_int ''0'' = Some 0"
  by (simp add: py_int_def strip_def py_isspace_def unsigned_int_def digit_of_def)

lemma get_url_headers_returns: "\<exists>hs. fst (get_url_headers w u) = Inr hs"
  by (simp add: get_url_headers_def split: sum.splits)

lemma head_ok_no_fallback:
  assumes "head_request w u = Inr r" and "\<not> request_failed (Inr r)"
  shows "get_url_headers w u = (Inr (resp_headers r), [HEAD u])"
  using assms by (simp add: get_url_headers_def request_failed_def split: sum.splits)

lemma head_failed_get_ok:
  assumes "request_failed (head_request w u)"
    and "get_request w u = Inr r" and "\<not> request_failed (Inr r)"
  shows "get_url_headers w u = (Inr (resp_headers r), [HEAD u, GET u, CLOSE, CLOSE])"
  using assms by (auto simp: get_url_headers_def request_failed_def split: sum.splits)

lemma both_failed_empty:
  assumes "request_failed (head_request w u)" and "request_failed (get_request w u)"
  shows "fst (get_url_headers w u) = Inr Map.empty
    \<and> take 2 (snd (get_url_headers w u)) = [HEAD u, GET u]"
  using assms by (auto simp: get_url_headers_def request_failed_def split: sum.splits)

text \<open>
  C6. \<open>StaticFileUpdater.is_update_available\<close>, for an installed file that exists: when the
  fetched headers have no \<open>content-length\<close>, or one that reads as 0, the answer is
  \<open>False\<close>; when it reads as another number, the answer is \<open>True\<close> exactly when that
  number differs from the size of the file.
\<close>

theorem is_update_available_by_size:
  assumes "fst (get_url_headers w (self_url self)) = Inr hs"
    and "file_size w (file_path el) = Some old_size"
  shows "(hs ''content-length'' = None \<longrightarrow> is_update_available w self el = Inr False)
    \<and> (\<forall>v. hs ''content-length'' = Some v \<and> py_int v = Some 0 \<longrightarrow>
          is_update_available w self el = Inr False)
    \<and> (\<forall>v n. hs ''content-length'' = Some v \<and> py_int v = Some n \<and> n \<noteq> 0 \<longrightarrow>
          is_update_available w self el = Inr (n \<noteq> int old_size))"
  using assms
  by (simp add: is_update_available_def header_or_def getsize_def py_int_zero)

theorem is_update_available_by_size_witness:
  "(fst (get_url_headers (serving Map.empty [] [''/app'' \<mapsto> 1200]) ''https://x/y.bin'') = Inr Map.empty
     \<and> file_size (serving Map.empty [] [''/app'' \<mapsto> 1200]) ''/app'' = Some 1200
     \<and> is_update_available (serving Map.empty [] [''/app'' \<mapsto> 1200])
          \<lparr> self_url = ''https://x/y.bin'', currend_download = None, self_embedded = False \<rparr>
          \<lparr> file_path = ''/app'' \<rparr> = Inr False)
   \<and> (py_int ''0'' = Some 0
     \<and> is_update_available (serving [''content-length'' \<mapsto> ''0''] [] [''/app'' \<mapsto> 1200])
          \<lparr> self_url = ''https://x/y.bin'', currend_download = None, self_embedded = False \<rparr>
          \<lparr> file_path = ''/app'' \<rparr> = Inr False)
   \<and> (py_int ''1500'' = Some 1500
     \<and> is_update_available (serving [''content-length'' \<mapsto> ''1500''] [] [''/app'' \<mapsto> 1200])
          \<lparr> self_url = ''https://x/y.bin'', currend_download = None, self_embedded = False \<rparr>
          \<lparr> file_path = ''/app'' \<rparr> = Inr True
     \<and> is_update_available (serving [''content-length'' \<mapsto> ''1500''] [] [''/app'' \<mapsto> 1500])
          \<lparr> self_url = ''https://x/y.bin'', currend_download = None, self_embedded = False \<rparr>
          \<lparr> file_path = ''/app'' \<rparr> = Inr False)"
proof -
  let ?self = "\<lparr> self_url = ''https://x/y.bin'', currend_download = None, self_embedded = False \<rparr>"
  let ?el = "\<lparr> file_path = ''/app'' \<rparr>"
  have hd: "fst (get_url_headers (serving hs [] fs) (self_url ?self)) = Inr hs" for hs fs
    by (simp add: get_url_headers_def serving_def raise_for_status_def)
  have sz: "file_size (serving hs [] [''/app'' \<mapsto> n]) (file_path ?el) = Some n" for hs n
    by (simp add: serving_def)
  have n0: "py_int ''0'' = Some 0"
    by (rule py_int_zero)
  have n1: "py_int ''1500'' = Some 1500"
    by (simp add: py_int_def strip_def py_isspace_def unsigned_int_def digit_of_def)
  have a: "is_update_available (serving Map.empty [] [''/app'' \<mapsto> 1200]) ?self ?el = Inr False"
    using is_update_available_by_size [OF hd sz, of Map.empty 1200] by simp
  have b: "is_update_available (serving [''content-length'' \<mapsto> ''0''] [] [''/app'' \<mapsto> 1200]) ?self ?el
      = Inr False"
    using is_update_available_by_size [OF hd sz, of "[''content-length'' \<mapsto> ''0'']" 1200] n0 by simp
  have c: "is_update_available (serving [''content-length'' \<mapsto> ''1500''] [] [''/app'' \<mapsto> 1200]) ?self ?el
      = Inr True"
    using is_update_available_by_size [OF hd sz, of "[''content-length'' \<mapsto> ''1500'']" 1200] n1 by simp
  have d: "is_update_available (serving [''content-length'' \<mapsto> ''1500''] [] [''/app'' \<mapsto> 1500]) ?self ?el
      = Inr False"
    using is_update_available_by_size [OF hd sz, of "[''content-length'' \<mapsto> ''1500'']" 1500] n1 by simp
  from hd [of Map.empty "[''/app'' \<mapsto> 1200]"] sz [of Map.empty 1200] a b c d n0 n1
  show ?thesis by simp
qed

text \<open>
  C9 as stated fails: a HEAD reply whose status is not 2xx but is no client or server
  error either, such as 304, is taken as it is, and no GET follows.
\<close>

theorem head_304_no_fallback:
  "\<not> (200 \<le> status_code \<lparr> status_code = 304, resp_headers = Map.empty, body = [] \<rparr>
        \<and> status_code \<lparr> status_code = 304, resp_headers = Map.empty, body = [] \<rparr> < 300)
   \<and> get_url_headers
        (offline\<lparr>
          head_request := (\<lambda>u. Inr \<lparr> status_code = 304, resp_headers = Map.empty, body = [] \<rparr>),
          get_request := (\<lambda>u. Inr \<lparr> status_code = 200,
             resp_headers = [''content-length'' \<mapsto> ''1500''], body = [] \<rparr>) \<rparr>)
        ''https://x/y.bin''
     = (Inr Map.empty, [HEAD ''https://x/y.bin''])"
  by (simp add: get_url_headers_def raise_for_status_def offline_def)

text \<open>
  C9, amended. \<open>get_url_headers\<close> never raises. It issues a HEAD request first; when that
  request does not fail (it raises nothing and its status is outside 400..599) its headers
  are returned and nothing else is requested. When it fails, a streamed GET follows: its
  headers are returned when it does not fail, and its body is closed; when both fail the
  result is the empty map.
\<close>

theorem get_url_headers_never_raises:
  "(\<exists>hs. fst (get_url_headers w u) = Inr hs)
   \<and> (\<forall>r. head_request w u = Inr r \<and> \<not> request_failed (Inr r) \<longrightarrow>
         get_url_headers w u = (Inr (resp_headers r), [HEAD u]))
   \<and> (\<forall>r. request_failed (head_request w u) \<and> get_request w u = Inr r \<and> \<not> request_failed (Inr r) \<longrightarrow>
         get_url_headers w u = (Inr (resp_headers r), [HEAD u, GET u, CLOSE, CLOSE]))
   \<and> (request_failed (head_request w u) \<and> request_failed (get_request w u) \<longrightarrow>
         fst (get_url_headers w u) = Inr Map.empty
         \<and> take 2 (snd (get_url_headers w u)) = [HEAD u, GET u])"
proof -
  have 1: "\<exists>hs. fst (get_url_headers w u) = Inr hs"
    by (rule get_url_headers_returns)
  have 2: "\<forall>r. head_request w u = Inr r \<and> \<not> request_failed (Inr r) \<longrightarrow>
      get_url_headers w u = (Inr (resp_headers r), [HEAD u])"
    using head_ok_no_fallback by blast
  have 3: "\<forall>r. request_failed (head_request w u) \<and> get_request w u = Inr r \<and> \<not> request_failed (Inr r) \<longrightarrow>
      get_url_headers w u = (Inr (resp_headers r), [HEAD u, GET u, CLOSE, CLOSE])"
    using head_failed_get_ok by blast
  have 4: "request_failed (head_request w u) \<and> request_failed (get_request w u) \<longrightarrow>
      fst (get_url_headers w u) = Inr Map.empty
      \<and> take 2 (snd (get_url_headers w u)) = [HEAD u, GET u]"
    using both_failed_empty by blast
  show ?thesis
    by (rule conjI [OF 1 conjI [OF 2 conjI [OF 3 4]]])
qed

theorem get_url_headers_never_raises_witness:
  "(head_request (serving [''etag'' \<mapsto> ''abc''] [] Map.empty) ''https://x/y.bin''
        = Inr \<lparr> status_code = 200, resp_headers = [''etag'' \<mapsto> ''abc''], body = [] \<rparr>
     \<and> \<not> request_failed (Inr \<lparr> status_code = 200, resp_headers = [''etag'' \<mapsto> ''abc''], body = [] \<rparr>)
     \<and> get_url_headers (serving [''etag'' \<mapsto> ''abc''] [] Map.empty) ''https://x/y.bin''
        = (Inr [''etag'' \<mapsto> ''abc''], [HEAD ''https://x/y.bin'']))
   \<and> (request_failed (head_request (head_refused [''etag'' \<mapsto> ''abc'']) ''https://x/y.bin'')
     \<and> get_request (head_refused [''etag'' \<mapsto> ''abc'']) ''https://x/y.bin''
        = Inr \<lparr> status_code = 200, resp_headers = [''etag'' \<mapsto> ''abc''], body = [] \<rparr>
     \<and> get_url_headers (head_refused [''etag'' \<mapsto> ''abc'']) ''https://x/y.bin''
        = (Inr [''etag'' \<mapsto> ''abc''],
           [HEAD ''https://x/y.bin'', GET ''https://x/y.bin'', CLOSE, CLOSE]))
   \<and> (request_failed (head_request offline ''https://x/y.bin'')
     \<and> request_failed (get_request offline ''https://x/y.bin'')
     \<and> fst (get_url_headers offline ''https://x/y.bin'') = Inr Map.empty
     \<and> take 2 (snd (get_url_headers offline ''https://x/y.bin''))
        = [HEAD ''https://x/y.bin'', GET ''https://x/y.bin''])"
proof -
  let ?hs = "[''etag'' \<mapsto> ''abc'']" and ?u = "''https://x/y.bin''"
  let ?r = "\<lparr> status_code = 200, resp_headers = ?hs, body = [] \<rparr>"
  have ok: "\<not> request_failed (Inr ?r)"
    by (simp add: request_failed_def raise_for_status_def)
  have a1: "head_request (serving ?hs [] Map.empty) ?u = Inr ?r"
    by (simp add: serving_def)
  have b1: "request_failed (head_request (head_refused ?hs) ?u)"
    by (simp add: head_refused_def request_failed_def raise_for_status_def)
  have b2: "get_request (head_refused ?hs) ?u = Inr ?r"
    by (simp add: head_refused_def)
  have c1: "request_failed (head_request offline ?u)"
    by (simp add: offline_def request_failed_def)
  have c2: "request_failed (get_request offline ?u)"
    by (simp add: offline_def request_failed_def)
  from get_url_headers_never_raises [of "serving ?hs [] Map.empty" ?u] a1 ok
  have a: "get_url_headers (serving ?hs [] Map.empty) ?u = (Inr (resp_headers ?r), [HEAD ?u])"
    by blast
  from get_url_headers_never_raises [of "head_refused ?hs" ?u] b1 b2 ok
  have b: "get_url_headers (head_refused ?hs) ?u = (Inr (resp_headers ?r), [HEAD ?u, GET ?u, CLOSE, CLOSE])"
    by blast
  from get_url_headers_never_raises [of offline ?u] c1 c2
  have c: "fst (get_url_headers offline ?u) = Inr Map.empty
      \<and> take 2 (snd (get_url_headers offline ?u)) = [HEAD ?u, GET ?u]"
    by blast
  from a1 ok a b1 b2 b c1 c2 c show ?thesis by simp
qed

section \<open>Claims about StaticFileUpdater.download and cancel\_download\<close>

lemma file_bytes_write_chunks:
  "file_bytes (write_chunks t cs l) = file_bytes l @ concat cs"
  by (induction cs arbitrary: l) (simp_all add: write_chunk_def Let_def)

lemma status_write_chunks:
  "status (write_chunks t cs l) = status l + block_size * int (length cs)"
  by (induction cs arbitrary: l) (simp_all add: write_chunk_def Let_def algebra_simps)

lemma calls_write_chunks_unknown_size:
  "calls (write_chunks 0 cs l) = calls l"
  by (induction cs arbitrary: l) (simp_all add: write_chunk_def Let_def)

lemma length_calls_write_chunks:
  "t \<noteq> 0 \<Longrightarrow> length (calls (write_chunks t cs l)) = length (calls l) + length cs"
  by (induction cs arbitrary: l) (simp_all add: write_chunk_def Let_def)


lemma calls_write_chunks_extend:
  "\<exists>ext. calls (write_chunks t cs l) = calls l @ ext"
proof (induction cs arbitrary: l)
  case Nil
  show ?case by simp
next
  case (Cons c cs)
  obtain ext where "calls (write_chunks t cs (write_chunk t c l)) = calls (write_chunk t c l) @ ext"
    using Cons.IH by blast
  then show ?case
    by (cases "t = 0") (simp_all add: write_chunk_def Let_def)
qed


text \<open>The \<open>i\<close>-th report is \<open>(i + 1) * block_size / total_size\<close>, whatever the chunks hold.\<close>

lemma nth_calls_write_chunks:
  assumes "t \<noteq> 0" and "i < length cs"
  shows "calls (write_chunks t cs l) ! (length (calls l) + i)
    = of_int (status l + block_size * (int i + 1)) / of_int t"
  using assms
proof (induction cs arbitrary: l i)
  case Nil
  then show ?case by simp
next
  case (Cons c cs)
  let ?l1 = "write_chunk t c l"
  have l1: "calls ?l1 = calls l @ [of_int (status l + block_size) / of_int t]"
    "status ?l1 = status l + block_size"
    using Cons.prems by (simp_all add: write_chunk_def Let_def)
  show ?case
  proof (cases i)
    case 0
    obtain ext where "calls (write_chunks t cs ?l1) = calls ?l1 @ ext"
      using calls_write_chunks_extend by blast
    with 0 l1 show ?thesis by (simp add: nth_append)
  next
    case (Suc j)
    with Cons.prems have "j < length cs" by simp
    from Cons.IH [OF \<open>t \<noteq> 0\<close> this, of ?l1] Suc l1 show ?thesis
      by (simp add: algebra_simps)
  qed
qed

text \<open>
  What \<open>download\<close> reports in a run that is not cancelled: nothing when no size is known,
  and otherwise one fraction for each chunk, the \<open>i\<close>-th being \<open>(i + 1) * 1024 / N\<close>.
\<close>

lemma download_reports:
  assumes "get_request w (self_url self) = Inr resp"
    and "(case resp_headers resp ''content-length'' of None \<Rightarrow> Some 0 | Some v \<Rightarrow> py_int v) = Some N"
  shows "(N = 0 \<longrightarrow> reported (download w cr None fname self) = [])
    \<and> (N \<noteq> 0 \<longrightarrow> length (reported (download w cr None fname self)) = length (body resp)
          \<and> (\<forall>i < length (body resp). reported (download w cr None fname self) ! i
                = of_int (1024 * (int i + 1)) / of_int N))"
proof -
  let ?start = "\<lparr> file_bytes = [], status = 0, calls = [] \<rparr>"
  have rep: "reported (download w cr None fname self) = calls (write_chunks N (body resp) ?start)"
    using assms by (simp add: download_def Let_def split: option.splits)
  have "N \<noteq> 0 \<Longrightarrow> i < length (body resp) \<Longrightarrow>
      calls (write_chunks N (body resp) ?start) ! i = of_int (1024 * (int i + 1)) / of_int N" for i
    using nth_calls_write_chunks [of N i "body resp" ?start] by (simp add: block_size_def)
  then show ?thesis
    unfolding rep by (simp add: calls_write_chunks_unknown_size length_calls_write_chunks)
qed

lemma py_int_1500: "py_int ''1500'' = Some 1500"
  by (simp add: py_int_def strip_def py_isspace_def unsigned_int_def digit_of_def)


text \<open>
  C1 (the code leaves the interval). A reply that advertises 1500 bytes and delivers them
  as a chunk of 1024 bytes and a chunk of 476 bytes: the file is complete and the call
  returns, \<open>status_update_cb\<close> is called once for each chunk, and its second argument is
  \<open>2048 / 1500\<close>, which is above 1.
\<close>

theorem progress_above_one:
  "reported (download
      (serving [''content-length'' \<mapsto> ''1500''] [replicate 1024 CHR ''a'', replicate 476 CHR ''a''] Map.empty)
      StopIteration None ''/tmp/it.mijorus.gearlever/downloads/r.appimage''
      \<lparr> self_url = ''https://x/y.bin'', currend_download = None, self_embedded = False \<rparr>)
     = [256 / 375, 512 / 375]
   \<and> (1 :: rat) < 512 / 375
   \<and> result (download
      (serving [''content-length'' \<mapsto> ''1500''] [replicate 1024 CHR ''a'', replicate 476 CHR ''a''] Map.empty)
      StopIteration None ''/tmp/it.mijorus.gearlever/downloads/r.appimage''
      \<lparr> self_url = ''https://x/y.bin'', currend_download = None, self_embedded = False \<rparr>)
     = Inr (''/tmp/it.mijorus.gearlever/downloads/r.appimage'', [])"
  by (simp add: download_def serving_def write_chunk_def block_size_def py_int_1500 header_or_def)

lemma py_int_1000: "py_int ''1000'' = Some 1000"
  by (simp add: py_int_def strip_def py_isspace_def unsigned_int_def digit_of_def)

text \<open>
  Whatever the run, cancelled or not: a value is returned only behind the size check, so
  it is the path and the \<open>etag\<close>, and the file is not smaller than the advertised size.
\<close>

lemma download_returns_checked:
  assumes "get_request w (self_url self) = Inr resp"
    and "(case resp_headers resp ''content-length'' of None \<Rightarrow> Some 0 | Some v \<Rightarrow> py_int v) = Some N"
    and "result (download w cr cancel_at fname self) = Inr p"
  shows "p = (fname, case resp_headers resp ''etag'' of None \<Rightarrow> [] | Some e \<Rightarrow> e)
    \<and> \<not> int (length (written (download w cr cancel_at fname self))) < N"
proof -
  let ?start = "\<lparr> file_bytes = [], status = 0, calls = [] \<rparr>"
  let ?self1 = "self\<lparr> currend_download := Some resp \<rparr>"
  let ?cut = "\<exists>k. cancel_at = Some k \<and> k < length (body resp) \<and> snd (cancel_download ?self1) \<noteq> []"
  show ?thesis
  proof (cases ?cut)
    case True
    then obtain k where k: "cancel_at = Some k" "k < length (body resp)"
        "snd (cancel_download ?self1) \<noteq> []"
      by blast
    with assms show ?thesis
      by (cases cr) (simp_all add: download_def Let_def header_or_def split: if_splits)
  next
    case False
    then have nc: "(case cancel_at of None \<Rightarrow> None
        | Some k \<Rightarrow> if k < length (body resp) \<and> snd (cancel_download ?self1) \<noteq> []
            then Some k else None) = None"
      by (cases cancel_at) auto
    show ?thesis
    proof (cases "stream_end w (self_url self)")
      case None
      with assms nc show ?thesis
        by (simp add: download_def Let_def header_or_def split: if_splits)
    next
      case (Some e)
      with assms nc show ?thesis
        by (simp add: download_def Let_def)
    qed
  qed
qed

lemma download_uncancelled_written:
  assumes "get_request w (self_url self) = Inr resp"
    and "(case resp_headers resp ''content-length'' of None \<Rightarrow> Some 0 | Some v \<Rightarrow> py_int v) = Some N"
  shows "written (download w cr None fname self) = concat (body resp)"
  using assms
  by (simp add: download_def Let_def file_bytes_write_chunks split: option.splits)

lemma download_stream_ended:
  assumes "get_request w (self_url self) = Inr resp"
    and "(case resp_headers resp ''content-length'' of None \<Rightarrow> Some 0 | Some v \<Rightarrow> py_int v) = Some N"
    and "stream_end w (self_url self) = None"
  shows "result (download w cr None fname self)
    = (if int (length (concat (body resp))) < N then Inl DownloadInterruptedException
       else Inr (fname, case resp_headers resp ''etag'' of None \<Rightarrow> [] | Some e \<Rightarrow> e))"
  using assms
  by (simp add: download_def Let_def file_bytes_write_chunks header_or_def)

lemma download_stream_broken:
  assumes "get_request w (self_url self) = Inr resp"
    and "(case resp_headers resp ''content-length'' of None \<Rightarrow> Some 0 | Some v \<Rightarrow> py_int v) = Some N"
    and "stream_end w (self_url self) = Some e"
  shows "result (download w cr None fname self) = Inl e"
  using assms by (simp add: download_def Let_def)

text \<open>
  C3 as stated fails: a reply that advertises 1000 bytes and whose body breaks off behind
  900 bytes, so that \<open>iter_content\<close> raises. The loop has no handler: the file holds 900
  bytes, fewer than advertised, and what leaves \<open>download\<close> is the exception of
  \<open>requests\<close>, not \<open>DownloadInterruptedException\<close>.
\<close>

theorem broken_body_not_interrupted:
  "int (length (written (download
      (breaking [''content-length'' \<mapsto> ''1000''] [replicate 900 CHR ''a''] ChunkedEncodingError)
      StopIteration None ''/tmp/r.appimage''
      \<lparr> self_url = ''https://x/y.bin'', currend_download = None, self_embedded = False \<rparr>))) < 1000
   \<and> result (download
      (breaking [''content-length'' \<mapsto> ''1000''] [replicate 900 CHR ''a''] ChunkedEncodingError)
      StopIteration None ''/tmp/r.appimage''
      \<lparr> self_url = ''https://x/y.bin'', currend_download = None, self_embedded = False \<rparr>)
     = Inl ChunkedEncodingError
   \<and> result (download
      (breaking [''content-length'' \<mapsto> ''1000''] [replicate 900 CHR ''a''] ChunkedEncodingError)
      StopIteration None ''/tmp/r.appimage''
      \<lparr> self_url = ''https://x/y.bin'', currend_download = None, self_embedded = False \<rparr>)
     \<noteq> Inl DownloadInterruptedException"
  by (simp add: download_def breaking_def serving_def write_chunk_def block_size_def py_int_1000)

text \<open>
  C3, amended. A call of \<open>download\<close> whose request is answered and whose \<open>content-length\<close>
  (if any) reads as a number \<open>N\<close> (0 when the header is absent). (1) In every run,
  cancelled or not, a value is returned only when the file is not smaller than \<open>N\<close>, and
  it is the path of the file with the \<open>etag\<close> header, or with the empty string when there
  is none: a file smaller than \<open>N\<close> is never reported as downloaded. (2) In a run that is
  not cancelled the file holds the chunks of the body; when the iteration over the body
  ends without raising, the call raises \<open>DownloadInterruptedException\<close> if the file is
  smaller than \<open>N\<close> and returns otherwise; (3) when the iteration raises, that exception
  leaves \<open>download\<close>.
\<close>

theorem download_size_check:
  assumes "get_request w (self_url self) = Inr resp"
    and "(case resp_headers resp ''content-length'' of None \<Rightarrow> Some 0 | Some v \<Rightarrow> py_int v) = Some N"
  shows "(\<forall>p. result (download w cr cancel_at fname self) = Inr p \<longrightarrow>
          p = (fname, case resp_headers resp ''etag'' of None \<Rightarrow> [] | Some e \<Rightarrow> e)
          \<and> \<not> int (length (written (download w cr cancel_at fname self))) < N)
    \<and> written (download w cr None fname self) = concat (body resp)
    \<and> (stream_end w (self_url self) = None \<longrightarrow>
          (int (length (concat (body resp))) < N \<longrightarrow>
             result (download w cr None fname self) = Inl DownloadInterruptedException)
          \<and> (\<not> int (length (concat (body resp))) < N \<longrightarrow>
             result (download w cr None fname self)
               = Inr (fname, case resp_headers resp ''etag'' of None \<Rightarrow> [] | Some e \<Rightarrow> e)))
    \<and> (\<forall>e. stream_end w (self_url self) = Some e \<longrightarrow>
          result (download w cr None fname self) = Inl e)"
proof -
  have 1: "\<forall>p. result (download w cr cancel_at fname self) = Inr p \<longrightarrow>
      p = (fname, case resp_headers resp ''etag'' of None \<Rightarrow> [] | Some e \<Rightarrow> e)
      \<and> \<not> int (length (written (download w cr cancel_at fname self))) < N"
    using download_returns_checked [OF assms] by blast
  have 2: "written (download w cr None fname self) = concat (body resp)"
    using assms by (rule download_uncancelled_written)
  have 3: "stream_end w (self_url self) = None \<longrightarrow>
      (int (length (concat (body resp))) < N \<longrightarrow>
         result (download w cr None fname self) = Inl DownloadInterruptedException)
      \<and> (\<not> int (length (concat (body resp))) < N \<longrightarrow>
         result (download w cr None fname self)
           = Inr (fname, case resp_headers resp ''etag'' of None \<Rightarrow> [] | Some e \<Rightarrow> e))"
    using download_stream_ended [OF assms] by simp
  have 4: "\<forall>e. stream_end w (self_url self) = Some e \<longrightarrow>
      result (download w cr None fname self) = Inl e"
    using download_stream_broken [OF assms] by blast
  show ?thesis
    by (rule conjI [OF 1 conjI [OF 2 conjI [OF 3 4]]])
qed

theorem download_size_check_witness:
  "(get_request (serving [''content-length'' \<mapsto> ''1500''] [replicate 1024 CHR ''a'', replicate 300 CHR ''a''] Map.empty)
        ''https://x/y.bin''
      = Inr \<lparr> status_code = 200, resp_headers = [''content-length'' \<mapsto> ''1500''],
              body = [replicate 1024 CHR ''a'', replicate 300 CHR ''a''] \<rparr>
     \<and> py_int ''1500'' = Some 1500
     \<and> stream_end (serving [''content-length'' \<mapsto> ''1500''] [replicate 1024 CHR ''a'', replicate 300 CHR ''a''] Map.empty)
          ''https://x/y.bin'' = None
     \<and> int (length (concat [replicate 1024 CHR ''a'', replicate 300 CHR ''a''])) < 1500
     \<and> result (download
          (serving [''content-length'' \<mapsto> ''1500''] [replicate 1024 CHR ''a'', replicate 300 CHR ''a''] Map.empty)
          StopIteration None ''/tmp/r.appimage''
          \<lparr> self_url = ''https://x/y.bin'', currend_download = None, self_embedded = False \<rparr>)
        = Inl DownloadInterruptedException)
   \<and> (get_request (serving [''etag'' \<mapsto> ''abc''] [replicate 1024 CHR ''a''] Map.empty) ''https://x/y.bin''
      = Inr \<lparr> status_code = 200, resp_headers = [''etag'' \<mapsto> ''abc''], body = [replicate 1024 CHR ''a''] \<rparr>
     \<and> stream_end (serving [''etag'' \<mapsto> ''abc''] [replicate 1024 CHR ''a''] Map.empty) ''https://x/y.bin'' = None
     \<and> \<not> int (length (concat [replicate 1024 CHR ''a''])) < 0
     \<and> result (download (serving [''etag'' \<mapsto> ''abc''] [replicate 1024 CHR ''a''] Map.empty)
          StopIteration None ''/tmp/r.appimage''
          \<lparr> self_url = ''https://x/y.bin'', currend_download = None, self_embedded = False \<rparr>)
        = Inr (''/tmp/r.appimage'', ''abc'')
     \<and> \<not> int (length (written (download (serving [''etag'' \<mapsto> ''abc''] [replicate 1024 CHR ''a''] Map.empty)
          StopIteration None ''/tmp/r.appimage''
          \<lparr> self_url = ''https://x/y.bin'', currend_download = None, self_embedded = False \<rparr>))) < 0)
   \<and> (get_request (breaking [''content-length'' \<mapsto> ''1000''] [replicate 900 CHR ''a''] ChunkedEncodingError)
        ''https://x/y.bin''
      = Inr \<lparr> status_code = 200, resp_headers = [''content-length'' \<mapsto> ''1000''],
              body = [replicate 900 CHR ''a''] \<rparr>
     \<and> py_int ''1000'' = Some 1000
     \<and> stream_end (breaking [''content-length'' \<mapsto> ''1000''] [replicate 900 CHR ''a''] ChunkedEncodingError)
          ''https://x/y.bin'' = Some ChunkedEncodingError
     \<and> result (download
          (breaking [''content-length'' \<mapsto> ''1000''] [replicate 900 CHR ''a''] ChunkedEncodingError)
          StopIteration None ''/tmp/r.appimage''
          \<lparr> self_url = ''https://x/y.bin'', currend_download = None, self_embedded = False \<rparr>)
        = Inl ChunkedEncodingError)"
proof -
  let ?self = "\<lparr> self_url = ''https://x/y.bin'', currend_download = None, self_embedded = False \<rparr>"
  let ?short = "[replicate 1024 CHR ''a'', replicate 300 CHR ''a'']"
  let ?one = "[replicate 1024 CHR ''a'']" and ?part = "[replicate 900 CHR ''a'']"
  let ?h1 = "[''content-length'' \<mapsto> ''1500'']" and ?h2 = "[''etag'' \<mapsto> ''abc'']"
  let ?h3 = "[''content-length'' \<mapsto> ''1000'']"
  let ?r1 = "\<lparr> status_code = 200, resp_headers = ?h1, body = ?short \<rparr>"
  let ?r2 = "\<lparr> status_code = 200, resp_headers = ?h2, body = ?one \<rparr>"
  let ?r3 = "\<lparr> status_code = 200, resp_headers = ?h3, body = ?part \<rparr>"
  let ?w1 = "serving ?h1 ?short Map.empty" and ?w2 = "serving ?h2 ?one Map.empty"
  let ?w3 = "breaking ?h3 ?part ChunkedEncodingError"
  have g1: "get_request ?w1 (self_url ?self) = Inr ?r1"
    by (simp add: serving_def)
  have n1: "(case resp_headers ?r1 ''content-length'' of None \<Rightarrow> Some 0 | Some v \<Rightarrow> py_int v) = Some 1500"
    by (simp add: py_int_1500)
  have e1: "stream_end ?w1 (self_url ?self) = None"
    by (simp add: serving_def)
  have s1: "int (length (concat ?short)) < 1500"
    by simp
  have g2: "get_request ?w2 (self_url ?self) = Inr ?r2"
    by (simp add: serving_def)
  have n2: "(case resp_headers ?r2 ''content-length'' of None \<Rightarrow> Some 0 | Some v \<Rightarrow> py_int v) = Some 0"
    by simp
  have e2: "stream_end ?w2 (self_url ?self) = None"
    by (simp add: serving_def)
  have s2: "\<not> int (length (concat ?one)) < 0"
    by simp
  have g3: "get_request ?w3 (self_url ?self) = Inr ?r3"
    by (simp add: breaking_def serving_def)
  have n3: "(case resp_headers ?r3 ''content-length'' of None \<Rightarrow> Some 0 | Some v \<Rightarrow> py_int v) = Some 1000"
    by (simp add: py_int_1000)
  have e3: "stream_end ?w3 (self_url ?self) = Some ChunkedEncodingError"
    by (simp add: breaking_def)
  note t1 = download_size_check [OF g1 n1, of StopIteration None "''/tmp/r.appimage''"]
  note t2 = download_size_check [OF g2 n2, of StopIteration None "''/tmp/r.appimage''"]
  note t3 = download_size_check [OF g3 n3, of StopIteration None "''/tmp/r.appimage''"]
  from t1 e1 s1
  have a: "result (download ?w1 StopIteration None ''/tmp/r.appimage'' ?self) = Inl DownloadInterruptedException"
    by simp
  from t2 e2 s2
  have b: "result (download ?w2 StopIteration None ''/tmp/r.appimage'' ?self) = Inr (''/tmp/r.appimage'', ''abc'')"
    by simp
  from t2 b
  have b': "\<not> int (length (written (download ?w2 StopIteration None ''/tmp/r.appimage'' ?self))) < 0"
    by blast
  from t3 e3
  have c: "result (download ?w3 StopIteration None ''/tmp/r.appimage'' ?self) = Inl ChunkedEncodingError"
    by blast
  from g1 py_int_1500 e1 s1 a g2 e2 s2 b b' g3 py_int_1000 e3 c show ?thesis by simp
qed



lemma cancel_download_clears:
  "currend_download s = Some r \<Longrightarrow> response_bool r \<Longrightarrow>
    cancel_download s = (s\<lparr> currend_download := None \<rparr>, [CLOSE])"
  by (simp add: cancel_download_def)

text \<open>
  A transfer whose response is a client or server error is not cancelled at all: the
  test \<open>if self.currend_download:\<close> is false for it, so the response stays open and the
  handle stays.
\<close>

lemma cancel_download_error_reply:
  "cancel_download \<lparr> self_url = u,
      currend_download = Some \<lparr> status_code = 404, resp_headers = hs, body = cs \<rparr>,
      self_embedded = b \<rparr>
    = (\<lparr> self_url = u,
        currend_download = Some \<lparr> status_code = 404, resp_headers = hs, body = cs \<rparr>,
        self_embedded = b \<rparr>, [])"
  by (simp add: cancel_download_def response_bool_def raise_for_status_def)




section \<open>Claims about GithubUpdater.fetch\_target\_asset\<close>

lemma find_first_ok:
  "\<forall>x \<in> set pre. \<not> P x \<Longrightarrow> P t \<Longrightarrow> find P (pre @ t # post) = Some t"
  by (induction pre) simp_all

lemma find_no_ok: "\<forall>x \<in> set xs. \<not> P x \<Longrightarrow> find P xs = None"
  by (induction xs) simp_all

lemma token_here_iff:
  "token_here tokens s \<longleftrightarrow> (\<exists>m d rest. m \<in> set tokens \<and> arch_sep d \<and> s = m @ d # rest)"
proof
  assume "token_here tokens s"
  then obtain m where m: "m \<in> set tokens" "take (length m) s = m"
      and tl: "(case drop (length m) s of [] \<Rightarrow> False | d # ds \<Rightarrow> arch_sep d)"
    by (auto simp: token_here_def list_ex_iff startswith_def)
  from tl obtain d ds where d: "drop (length m) s = d # ds" "arch_sep d"
    by (cases "drop (length m) s") auto
  have "s = take (length m) s @ drop (length m) s" by simp
  with m d have "s = m @ d # ds" by simp
  with m d show "\<exists>m d rest. m \<in> set tokens \<and> arch_sep d \<and> s = m @ d # rest" by blast
next
  assume "\<exists>m d rest. m \<in> set tokens \<and> arch_sep d \<and> s = m @ d # rest"
  then obtain m d rest where h: "m \<in> set tokens" "arch_sep d" "s = m @ d # rest" by blast
  then have "startswith s m \<and> (case drop (length m) s of [] \<Rightarrow> False | d # ds \<Rightarrow> arch_sep d)"
    by (simp add: startswith_def)
  with h(1) show "token_here tokens s"
    unfolding token_here_def list_ex_iff by blast
qed

text \<open>The search finds a token exactly when the name holds one between two separators.\<close>

lemma search_token_iff:
  "search_token tokens n \<longleftrightarrow>
    (\<exists>pre a m b post. m \<in> set tokens \<and> arch_sep a \<and> arch_sep b \<and> n = pre @ a # m @ b # post)"
proof (induction n)
  case Nil
  show ?case by simp
next
  case (Cons c cs)
  show ?case
  proof
    assume "search_token tokens (c # cs)"
    then consider "arch_sep c" "token_here tokens cs" | "search_token tokens cs" by auto
    then show "\<exists>pre a m b post. m \<in> set tokens \<and> arch_sep a \<and> arch_sep b \<and> c # cs = pre @ a # m @ b # post"
    proof cases
      case 1
      then obtain m d rest where "m \<in> set tokens" "arch_sep d" "cs = m @ d # rest"
        by (auto simp: token_here_iff)
      with 1 have "m \<in> set tokens \<and> arch_sep c \<and> arch_sep d \<and> c # cs = [] @ c # m @ d # rest"
        by simp
      then show ?thesis by blast
    next
      case 2
      then obtain pre a m b post where
        "m \<in> set tokens" "arch_sep a" "arch_sep b" "cs = pre @ a # m @ b # post"
        using Cons.IH by blast
      then have "m \<in> set tokens \<and> arch_sep a \<and> arch_sep b \<and> c # cs = (c # pre) @ a # m @ b # post"
        by simp
      then show ?thesis by blast
    qed
  next
    assume "\<exists>pre a m b post. m \<in> set tokens \<and> arch_sep a \<and> arch_sep b \<and> c # cs = pre @ a # m @ b # post"
    then obtain pre a m b post where h:
      "m \<in> set tokens" "arch_sep a" "arch_sep b" "c # cs = pre @ a # m @ b # post"
      by blast
    show "search_token tokens (c # cs)"
    proof (cases pre)
      case Nil
      with h have "c = a" "cs = m @ b # post" by simp_all
      with h have "arch_sep c \<and> token_here tokens cs"
        by (auto simp: token_here_iff)
      then show ?thesis by simp
    next
      case (Cons p ps)
      with h have "cs = ps @ a # m @ b # post" by simp
      with h have "search_token tokens cs"
        using Cons.IH by blast
      then show ?thesis by simp
    qed
  qed
qed

lemma zsync_file_single: "zsync_file machine [a] = Some a"
  by (simp add: zsync_file_def)

lemma zsync_file_several:
  assumes "length targets \<noteq> 1"
  shows "zsync_file machine targets = (if machine = ''x86_64'' then find arch_ok targets else None)"
proof (cases targets)
  case Nil
  then show ?thesis by (simp add: zsync_file_def)
next
  case (Cons t ts)
  with assms obtain u us where "ts = u # us" by (cases ts) auto
  with Cons show ?thesis by (simp add: zsync_file_def)
qed

lemma fetch_target_asset_selected:
  assumes "api_release w (rel_url self) = Inr rel"
    and "glob_match (tag_name (gh_url_data self)) (release_tag_name rel)"
  shows "fetch_target_asset w self =
    (case zsync_file (arch w) (possible_targets self rel) of
       None \<Rightarrow> None
     | Some z \<Rightarrow> find (\<lambda>a. asset_name a = sub_zsync_suffix (asset_name z)) (assets rel))"
  using assms by (simp add: fetch_target_asset_def)

text \<open>
  C8. Asset disambiguation of GithubUpdater, for a release that the API delivers and whose
  tag matches. The candidates are the possible targets: without \<open>embedded\<close>, the assets
  whose name matches the file name glob. (1) A single candidate is selected. (2) With
  several candidates on \<open>x86_64\<close>, the first one whose name holds \<open>x86\<close> between separators
  \<open>- _ .\<close>, or holds none of \<open>arm64\<close>, \<open>aarch64\<close>, \<open>armv7l\<close> between separators, is selected.
  (3) With no candidate, or with several and no such candidate or another machine, nothing
  is selected and the result is \<open>None\<close>. The asset returned is the one named as the selected
  candidate, less a final \<open>.zsync\<close>.
\<close>

theorem asset_disambiguation:
  assumes "api_release w (rel_url self) = Inr rel"
    and "glob_match (tag_name (gh_url_data self)) (release_tag_name rel)"
  shows "(\<not> gh_embedded self \<longrightarrow> possible_targets self rel
            = filter (\<lambda>a. glob_match (filename (gh_url_data self)) (asset_name a)) (assets rel))
    \<and> (\<forall>a. possible_targets self rel = [a] \<longrightarrow>
          zsync_file (arch w) (possible_targets self rel) = Some a)
    \<and> (\<forall>pre t post. possible_targets self rel = pre @ t # post \<and> pre @ post \<noteq> [] \<and>
          arch w = ''x86_64'' \<and> arch_ok t \<and> (\<forall>x \<in> set pre. \<not> arch_ok x) \<longrightarrow>
          zsync_file (arch w) (possible_targets self rel) = Some t)
    \<and> (possible_targets self rel = [] \<or>
        (length (possible_targets self rel) \<noteq> 1 \<and>
          (arch w \<noteq> ''x86_64'' \<or> (\<forall>x \<in> set (possible_targets self rel). \<not> arch_ok x))) \<longrightarrow>
          zsync_file (arch w) (possible_targets self rel) = None \<and> fetch_target_asset w self = None)
    \<and> fetch_target_asset w self =
        (case zsync_file (arch w) (possible_targets self rel) of
           None \<Rightarrow> None
         | Some z \<Rightarrow> find (\<lambda>a. asset_name a = sub_zsync_suffix (asset_name z)) (assets rel))
    \<and> (\<forall>t. arch_ok t \<longleftrightarrow>
          (\<exists>pre a b post. arch_sep a \<and> arch_sep b \<and> asset_name t = pre @ a # ''x86'' @ b # post)
          \<or> \<not> (\<exists>pre a m b post. m \<in> {''arm64'', ''aarch64'', ''armv7l''} \<and> arch_sep a \<and> arch_sep b \<and>
                asset_name t = pre @ a # m @ b # post))"
proof -
  let ?ts = "possible_targets self rel"
  note sel = fetch_target_asset_selected [OF assms]
  have 1: "\<not> gh_embedded self \<longrightarrow> ?ts
      = filter (\<lambda>a. glob_match (filename (gh_url_data self)) (asset_name a)) (assets rel)"
    by (simp add: possible_targets_def)
  have 2: "\<forall>a. ?ts = [a] \<longrightarrow> zsync_file (arch w) ?ts = Some a"
    by (simp add: zsync_file_single)
  have 3: "\<forall>pre t post. ?ts = pre @ t # post \<and> pre @ post \<noteq> [] \<and>
      arch w = ''x86_64'' \<and> arch_ok t \<and> (\<forall>x \<in> set pre. \<not> arch_ok x) \<longrightarrow>
      zsync_file (arch w) ?ts = Some t"
  proof (intro allI impI)
    fix pre t post
    assume h: "?ts = pre @ t # post \<and> pre @ post \<noteq> [] \<and>
      arch w = ''x86_64'' \<and> arch_ok t \<and> (\<forall>x \<in> set pre. \<not> arch_ok x)"
    then have "length ?ts \<noteq> 1" by auto
    then have "zsync_file (arch w) ?ts = find arch_ok ?ts"
      using h by (simp add: zsync_file_several)
    also have "\<dots> = Some t"
      using h by (simp add: find_first_ok)
    finally show "zsync_file (arch w) ?ts = Some t" .
  qed
  have 4: "?ts = [] \<or> (length ?ts \<noteq> 1 \<and> (arch w \<noteq> ''x86_64'' \<or> (\<forall>x \<in> set ?ts. \<not> arch_ok x))) \<longrightarrow>
      zsync_file (arch w) ?ts = None \<and> fetch_target_asset w self = None"
  proof
    assume h: "?ts = [] \<or> (length ?ts \<noteq> 1 \<and> (arch w \<noteq> ''x86_64'' \<or> (\<forall>x \<in> set ?ts. \<not> arch_ok x)))"
    then have len: "length ?ts \<noteq> 1" by auto
    from h have "arch w \<noteq> ''x86_64'' \<or> find arch_ok ?ts = None"
      by (auto simp: find_no_ok)
    then have "zsync_file (arch w) ?ts = None"
      using len by (auto simp: zsync_file_several)
    then show "zsync_file (arch w) ?ts = None \<and> fetch_target_asset w self = None"
      using sel by simp
  qed
  have 6: "\<forall>t. arch_ok t \<longleftrightarrow>
      (\<exists>pre a b post. arch_sep a \<and> arch_sep b \<and> asset_name t = pre @ a # ''x86'' @ b # post)
      \<or> \<not> (\<exists>pre a m b post. m \<in> {''arm64'', ''aarch64'', ''armv7l''} \<and> arch_sep a \<and> arch_sep b \<and>
            asset_name t = pre @ a # m @ b # post)"
    unfolding arch_ok_def is_x86_def is_arm_def search_token_iff by simp
  show ?thesis
    by (rule conjI [OF 1 conjI [OF 2 conjI [OF 3 conjI [OF 4 conjI [OF sel 6]]]]])
qed

lemma glob_app_x86: "glob_match ''app-*.AppImage'' ''app-x86_64.AppImage''"
  by (simp add: newline_def)

lemma glob_app_arm: "glob_match ''app-*.AppImage'' ''app-arm64.AppImage''"
  by (simp add: newline_def)

lemma glob_app_notes: "\<not> glob_match ''app-*.AppImage'' ''notes.txt''"
  by (simp add: newline_def)

lemma arch_ok_x86: "arch_ok (named_asset ''app-x86_64.AppImage'')"
  by (simp add: arch_ok_def is_x86_def named_asset_def token_here_def startswith_def arch_sep_def)

lemma arch_ok_arm: "\<not> arch_ok (named_asset ''app-arm64.AppImage'')"
  by (simp add: arch_ok_def is_x86_def is_arm_def named_asset_def token_here_def startswith_def
      arch_sep_def)

theorem asset_disambiguation_witness:
  "(possible_targets app_updater
        \<lparr> release_tag_name = ''v1'',
          assets = [named_asset ''app-x86_64.AppImage'', named_asset ''app-arm64.AppImage''] \<rparr>
      = [] @ named_asset ''app-x86_64.AppImage'' # [named_asset ''app-arm64.AppImage'']
     \<and> arch (releasing ''x86_64''
          \<lparr> release_tag_name = ''v1'',
            assets = [named_asset ''app-x86_64.AppImage'', named_asset ''app-arm64.AppImage''] \<rparr>) = ''x86_64''
     \<and> arch_ok (named_asset ''app-x86_64.AppImage'')
     \<and> fetch_target_asset (releasing ''x86_64''
          \<lparr> release_tag_name = ''v1'',
            assets = [named_asset ''app-x86_64.AppImage'', named_asset ''app-arm64.AppImage''] \<rparr>) app_updater
        = Some (named_asset ''app-x86_64.AppImage''))
   \<and> (possible_targets app_updater
        \<lparr> release_tag_name = ''v1'',
          assets = [named_asset ''app-arm64.AppImage'', named_asset ''app-x86_64.AppImage''] \<rparr>
      = [named_asset ''app-arm64.AppImage''] @ named_asset ''app-x86_64.AppImage'' # []
     \<and> \<not> arch_ok (named_asset ''app-arm64.AppImage'')
     \<and> fetch_target_asset (releasing ''x86_64''
          \<lparr> release_tag_name = ''v1'',
            assets = [named_asset ''app-arm64.AppImage'', named_asset ''app-x86_64.AppImage''] \<rparr>) app_updater
        = Some (named_asset ''app-x86_64.AppImage''))
   \<and> (possible_targets app_updater
        \<lparr> release_tag_name = ''v1'',
          assets = [named_asset ''notes.txt'', named_asset ''app-arm64.AppImage''] \<rparr>
      = [named_asset ''app-arm64.AppImage'']
     \<and> fetch_target_asset (releasing ''x86_64''
          \<lparr> release_tag_name = ''v1'',
            assets = [named_asset ''notes.txt'', named_asset ''app-arm64.AppImage''] \<rparr>) app_updater
        = Some (named_asset ''app-arm64.AppImage''))
   \<and> (possible_targets app_updater \<lparr> release_tag_name = ''v1'', assets = [named_asset ''notes.txt''] \<rparr> = []
     \<and> fetch_target_asset (releasing ''x86_64''
          \<lparr> release_tag_name = ''v1'', assets = [named_asset ''notes.txt''] \<rparr>) app_updater = None)
   \<and> (length (possible_targets app_updater
        \<lparr> release_tag_name = ''v1'',
          assets = [named_asset ''app-x86_64.AppImage'', named_asset ''app-arm64.AppImage''] \<rparr>) \<noteq> 1
     \<and> arch (releasing ''aarch64''
          \<lparr> release_tag_name = ''v1'',
            assets = [named_asset ''app-x86_64.AppImage'', named_asset ''app-arm64.AppImage''] \<rparr>) \<noteq> ''x86_64''
     \<and> fetch_target_asset (releasing ''aarch64''
          \<lparr> release_tag_name = ''v1'',
            assets = [named_asset ''app-x86_64.AppImage'', named_asset ''app-arm64.AppImage''] \<rparr>) app_updater
        = None)"
proof -
  let ?x = "named_asset ''app-x86_64.AppImage''" and ?a = "named_asset ''app-arm64.AppImage''"
  let ?n = "named_asset ''notes.txt''"
  have names: "asset_name ?x = ''app-x86_64.AppImage''" "asset_name ?a = ''app-arm64.AppImage''"
      "asset_name ?n = ''notes.txt''"
    by (simp_all add: named_asset_def)
  have ne: "?x \<noteq> ?a" "?a \<noteq> ?x"
    by (simp_all add: named_asset_def)
  have api: "api_release (releasing machine rel) (rel_url app_updater) = Inr rel" for machine rel
    by (simp add: releasing_def offline_def)
  have tag: "glob_match (tag_name (gh_url_data app_updater)) (release_tag_name \<lparr> release_tag_name = ''v1'', assets = as \<rparr>)"
    for as
    by (simp add: app_updater_def newline_def)
  have mach: "arch (releasing machine rel) = machine" for machine rel
    by (simp add: releasing_def)
  have pt: "possible_targets app_updater \<lparr> release_tag_name = ''v1'', assets = as \<rparr>
      = filter (\<lambda>a. glob_match ''app-*.AppImage'' (asset_name a)) as" for as
    by (simp add: possible_targets_def app_updater_def)
  have strip_x: "sub_zsync_suffix ''app-x86_64.AppImage'' = ''app-x86_64.AppImage''"
    by (simp add: sub_zsync_suffix_def endswith_def newline_def)
  have strip_a: "sub_zsync_suffix ''app-arm64.AppImage'' = ''app-arm64.AppImage''"
    by (simp add: sub_zsync_suffix_def endswith_def newline_def)
  let ?r1 = "\<lparr> release_tag_name = ''v1'', assets = [?x, ?a] \<rparr>"
  let ?r2 = "\<lparr> release_tag_name = ''v1'', assets = [?a, ?x] \<rparr>"
  let ?r3 = "\<lparr> release_tag_name = ''v1'', assets = [?n, ?a] \<rparr>"
  let ?r4 = "\<lparr> release_tag_name = ''v1'', assets = [?n] \<rparr>"
  have p1: "possible_targets app_updater ?r1 = [] @ ?x # [?a]"
    by (simp add: pt names glob_app_x86 glob_app_arm del: glob_match.simps)
  have p2: "possible_targets app_updater ?r2 = [?a] @ ?x # []"
    by (simp add: pt names glob_app_x86 glob_app_arm del: glob_match.simps)
  have p3: "possible_targets app_updater ?r3 = [?a]"
    by (simp add: pt names glob_app_notes glob_app_arm del: glob_match.simps)
  have p4: "possible_targets app_updater ?r4 = []"
    by (simp add: pt names glob_app_notes del: glob_match.simps)
  note d1 = asset_disambiguation
    [OF api [of "''x86_64''" "\<lparr> release_tag_name = ''v1'', assets = [?x, ?a] \<rparr>"] tag [of "[?x, ?a]"]]
  note d2 = asset_disambiguation
    [OF api [of "''x86_64''" "\<lparr> release_tag_name = ''v1'', assets = [?a, ?x] \<rparr>"] tag [of "[?a, ?x]"]]
  note d3 = asset_disambiguation
    [OF api [of "''x86_64''" "\<lparr> release_tag_name = ''v1'', assets = [?n, ?a] \<rparr>"] tag [of "[?n, ?a]"]]
  note d4 = asset_disambiguation
    [OF api [of "''x86_64''" "\<lparr> release_tag_name = ''v1'', assets = [?n] \<rparr>"] tag [of "[?n]"]]
  note d5 = asset_disambiguation
    [OF api [of "''aarch64''" "\<lparr> release_tag_name = ''v1'', assets = [?x, ?a] \<rparr>"] tag [of "[?x, ?a]"]]
  have m1: "arch (releasing ''x86_64'' ?r1) = ''x86_64''" and m2: "arch (releasing ''x86_64'' ?r2) = ''x86_64''"
    by (simp_all add: mach)
  have z1: "zsync_file (arch (releasing ''x86_64'' ?r1)) (possible_targets app_updater ?r1) = Some ?x"
    by (rule d1 [THEN conjunct2, THEN conjunct2, THEN conjunct1, rule_format, of "[]" ?x "[?a]"]) (simp add: p1 m1 arch_ok_x86)
  have f1: "fetch_target_asset (releasing ''x86_64'' ?r1) app_updater = Some ?x"
    unfolding d1 [THEN conjunct2, THEN conjunct2, THEN conjunct2, THEN conjunct2, THEN conjunct1] z1 by (simp add: names strip_x)
  have z2: "zsync_file (arch (releasing ''x86_64'' ?r2)) (possible_targets app_updater ?r2) = Some ?x"
    by (rule d2 [THEN conjunct2, THEN conjunct2, THEN conjunct1, rule_format, of "[?a]" ?x "[]"]) (simp add: p2 m2 arch_ok_x86 arch_ok_arm)
  have f2: "fetch_target_asset (releasing ''x86_64'' ?r2) app_updater = Some ?x"
    unfolding d2 [THEN conjunct2, THEN conjunct2, THEN conjunct2, THEN conjunct2, THEN conjunct1] z2 by (simp add: names strip_x)
  have z3: "zsync_file (arch (releasing ''x86_64'' ?r3)) (possible_targets app_updater ?r3) = Some ?a"
    by (rule d3 [THEN conjunct2, THEN conjunct1, rule_format]) (rule p3)
  have f3: "fetch_target_asset (releasing ''x86_64'' ?r3) app_updater = Some ?a"
    unfolding d3 [THEN conjunct2, THEN conjunct2, THEN conjunct2, THEN conjunct2, THEN conjunct1] z3 by (simp add: names strip_a)
  have f4: "fetch_target_asset (releasing ''x86_64'' ?r4) app_updater = None"
    using d4 [THEN conjunct2, THEN conjunct2, THEN conjunct2, THEN conjunct1, rule_format] p4 by simp
  have l5: "length (possible_targets app_updater ?r1) \<noteq> 1"
    using p1 by simp
  have m5: "arch (releasing ''aarch64'' ?r1) \<noteq> ''x86_64''"
    by (simp add: mach)
  have f5: "fetch_target_asset (releasing ''aarch64'' ?r1) app_updater = None"
    using d5 [THEN conjunct2, THEN conjunct2, THEN conjunct2, THEN conjunct1, rule_format] l5 m5 by blast
  from p1 m1 arch_ok_x86 f1 p2 arch_ok_arm f2 p3 f3 p4 f4 l5 m5 f5
  show ?thesis by blast
qed

section \<open>Claims about UpdateManagerChecker\<close>

lemma strip_keeps_head: "\<not> py_isspace c \<Longrightarrow> strip (c # cs) \<noteq> []"
  by (simp add: strip_def dropWhile_eq_Nil_conv)

lemma search_gh_head: "search_gh s = Some m \<Longrightarrow> \<exists>r. m = CHR ''g'' # r"
proof (induction s)
  case Nil
  then show ?case by simp
next
  case (Cons c cs)
  show ?case
  proof (cases "startswith (c # cs) ''gh-releases-zsync|'' \<and> gh_tail (drop 18 (c # cs)) \<noteq> None")
    case True
    then obtain n where n: "gh_tail (drop 18 (c # cs)) = Some n" by auto
    from True have "c = CHR ''g''" by (simp add: startswith_def)
    moreover from True n Cons.prems have "m = take (18 + n) (c # cs)" by simp
    ultimately show ?thesis by (simp add: take_Cons')
  next
    case False
    with Cons.prems have "search_gh cs = Some m" by (auto split: option.splits)
    then show ?thesis by (rule Cons.IH)
  qed
qed

lemma search_link_head: "search_link s = Some m \<Longrightarrow> \<exists>r. sub_zsync_prefix m = CHR ''h'' # r"
proof -
  assume a: "search_link s = Some m"
  then have sw: "startswith s ''zsync|http''"
    by (auto simp: search_link_def split: if_splits)
  with a obtain n where m: "m = take (10 + n) s"
    by (auto simp: search_link_def split: option.splits)
  from sw have "take 10 s = ''zsync|http''"
    by (simp add: startswith_def eval_nat_numeral)
  then have "s = ''zsync|http'' @ drop 10 s"
    using append_take_drop_id [of 10 s] by simp
  then obtain r where "s = ''zsync|http'' @ r" by blast
  with m have "m = ''zsync|http'' @ take n r" by (simp add: eval_nat_numeral)
  then show ?thesis by (simp add: sub_zsync_prefix_def startswith_def)
qed

text \<open>An embedded descriptor, when there is one, is never the empty string.\<close>

lemma check_app_not_empty: "check_app w e = Some d \<Longrightarrow> d \<noteq> []"
proof -
  assume a: "check_app w e = Some d"
  let ?s = "flatten (readelf w (file_path e))"
  show ?thesis
  proof (cases "search_gh ?s")
    case (Some m)
    then obtain r where "m = CHR ''g'' # r" using search_gh_head by blast
    moreover from a Some have "d = strip m" by (simp add: check_app_def)
    ultimately show ?thesis by (simp add: strip_keeps_head py_isspace_def)
  next
    case None
    with a obtain m where m: "search_link ?s = Some m" "d = strip (sub_zsync_prefix m)"
      by (auto simp: check_app_def split: option.splits)
    then obtain r where "sub_zsync_prefix m = CHR ''h'' # r" using search_link_head by blast
    with m show ?thesis by (simp add: strip_keeps_head py_isspace_def)
  qed
qed

text \<open>The two inputs with which the specification illustrates the extraction.\<close>

lemma check_app_github_example:
  "check_app (dumping ''zsync|gh-releases-zsync|acme|widget|latest|widget-*.AppImage.zsync '') e
    = Some ''gh-releases-zsync|acme|widget|latest|widget-*.AppImage.zsync''"
  by (simp add: check_app_def dumping_def offline_def flatten_def newline_def startswith_def
      strip_def py_isspace_def)

lemma check_app_static_example:
  "check_app (dumping ''zsync|https://x/y.bin '') e = Some ''https://x/y.bin''"
  by (simp add: check_app_def dumping_def offline_def flatten_def newline_def startswith_def
      strip_def py_isspace_def search_link_def sub_zsync_prefix_def)

text \<open>
  C4 (the code accepts more than the two patterns of the claim). The dot before \<open>zsync\<close> in
  the first pattern is not escaped, so a dump that holds \<open>gh-releases-zsync|\<close> and later
  \<open>_zsync\<close> is taken as a GitHub descriptor though nothing in it ends in \<open>.zsync\<close>. The
  second pattern is greedy, so what is returned runs to the last white space of the dump,
  not to the next one.
\<close>

theorem check_app_unescaped_dot:
  "check_app (dumping ''gh-releases-zsync|acme|widget|latest|widget_zsync'')
      \<lparr> file_path = ''/opt/widget.AppImage'' \<rparr>
     = Some ''gh-releases-zsync|acme|widget|latest|widget_zsync''
   \<and> \<not> endswith ''gh-releases-zsync|acme|widget|latest|widget_zsync'' ''.zsync''
   \<and> check_app (dumping ''zsync|https://x/y.bin extra words'') \<lparr> file_path = ''/opt/widget.AppImage'' \<rparr>
     = Some ''https://x/y.bin extra words''"
  by (simp add: check_app_def dumping_def offline_def flatten_def newline_def startswith_def
      endswith_def strip_def py_isspace_def search_link_def sub_zsync_prefix_def)

lemma first_accepting_first:
  assumes "\<forall>x \<in> set pre. can_handle_link x s = Inr False" and "can_handle_link m s = Inr True"
  shows "first_accepting can_handle_link (pre @ m # post) s = Inr (Some m)"
  using assms by (induction pre) simp_all

lemma first_accepting_none:
  assumes "\<forall>x \<in> set ms. can_handle_link x s = Inr False"
  shows "first_accepting can_handle_link ms s = Inr None"
  using assms by (induction ms) simp_all

lemma candidates_forced: "candidates (Some md) = [md]"
  by (cases md) (simp_all add: candidates_def get_models_def)

lemma check_url_embedded_first:
  assumes "check_app w e = Some d" and "candidates forced = pre @ m # post"
    and "\<forall>x \<in> set pre. can_handle_link x d = Inr False" and "can_handle_link m d = Inr True"
  shows "check_url can_handle_link w link (Some e) forced
    = Inr (Some \<lparr> manager_class = m, manager_url = d, manager_embedded = True \<rparr>)"
proof -
  have "d \<noteq> []" using assms(1) by (rule check_app_not_empty)
  moreover have "first_accepting can_handle_link (candidates forced) d = Inr (Some m)"
    unfolding assms(2) using assms(3,4) by (rule first_accepting_first)
  ultimately show ?thesis
    using assms(1) by (simp add: check_url_def Let_def)
qed

lemma check_url_falls_through:
  assumes "el = None \<or> (\<exists>e. el = Some e \<and> (check_app w e = None \<or>
      (\<exists>d. check_app w e = Some d \<and> (\<forall>x \<in> set (candidates forced). can_handle_link x d = Inr False))))"
  shows "check_url can_handle_link w link el forced
    = check_raw_url can_handle_link (candidates forced) link"
  using assms
  by (auto simp: check_url_def Let_def first_accepting_none)

lemma check_raw_url_first:
  assumes "u \<noteq> []" and "models = pre @ m # post"
    and "\<forall>x \<in> set pre. can_handle_link x u = Inr False" and "can_handle_link m u = Inr True"
  shows "check_raw_url can_handle_link models (Some u)
    = Inr (Some \<lparr> manager_class = m, manager_url = u, manager_embedded = False \<rparr>)"
proof -
  have "first_accepting can_handle_link models u = Inr (Some m)"
    unfolding assms(2) using assms(3,4) by (rule first_accepting_first)
  with assms(1) show ?thesis by (simp add: check_raw_url_def)
qed

lemma check_raw_url_none:
  assumes "link = None \<or> link = Some [] \<or>
    (\<exists>u. link = Some u \<and> (\<forall>x \<in> set models. can_handle_link x u = Inr False))"
  shows "check_raw_url can_handle_link models link = Inr None"
  using assms by (auto simp: check_raw_url_def first_accepting_none)

text \<open>
  C7. Dispatch by \<open>check_url\<close>. (1) A forced variant is the only candidate; without one
  the candidates are the three variants in their order. (2) When the artifact yields an
  embedded descriptor and a candidate accepts it, the first such candidate is returned,
  constructed on the descriptor with \<open>embedded=True\<close>, whatever the raw URL is. (3) When
  there is no artifact, or no embedded descriptor, or every candidate declines it, the
  raw URL decides: the first candidate that accepts it is returned, constructed on the
  URL without \<open>embedded\<close>; (4) and when there is no URL, or it is empty, or every candidate
  declines it, the result is \<open>None\<close>.
\<close>

theorem check_url_dispatch:
  "candidates (Some md) = [md]
   \<and> candidates None = [StaticFileUpdater, DynamicUpdater, GithubUpdater]
   \<and> (check_app w e = Some d \<and> candidates forced = pre @ m # post \<and>
        (\<forall>x \<in> set pre. can_handle_link x d = Inr False) \<and> can_handle_link m d = Inr True \<longrightarrow>
          check_url can_handle_link w link (Some e) forced
            = Inr (Some \<lparr> manager_class = m, manager_url = d, manager_embedded = True \<rparr>))
   \<and> ((el = None \<or> (\<exists>e. el = Some e \<and> (check_app w e = None \<or>
          (\<exists>d. check_app w e = Some d \<and>
             (\<forall>x \<in> set (candidates forced). can_handle_link x d = Inr False))))) \<longrightarrow>
        (u \<noteq> [] \<and> candidates forced = pre' @ m' # post' \<and>
           (\<forall>x \<in> set pre'. can_handle_link x u = Inr False) \<and> can_handle_link m' u = Inr True \<longrightarrow>
             check_url can_handle_link w (Some u) el forced
               = Inr (Some \<lparr> manager_class = m', manager_url = u, manager_embedded = False \<rparr>))
        \<and> (link = None \<or> link = Some [] \<or>
             (\<exists>u. link = Some u \<and> (\<forall>x \<in> set (candidates forced). can_handle_link x u = Inr False)) \<longrightarrow>
             check_url can_handle_link w link el forced = Inr None))"
proof -
  have 1: "candidates (Some md) = [md]"
    by (rule candidates_forced)
  have 2: "candidates None = [StaticFileUpdater, DynamicUpdater, GithubUpdater]"
    by (simp add: candidates_def get_models_def)
  have 3: "check_app w e = Some d \<and> candidates forced = pre @ m # post \<and>
      (\<forall>x \<in> set pre. can_handle_link x d = Inr False) \<and> can_handle_link m d = Inr True \<longrightarrow>
        check_url can_handle_link w link (Some e) forced
          = Inr (Some \<lparr> manager_class = m, manager_url = d, manager_embedded = True \<rparr>)"
    using check_url_embedded_first by blast
  have 4: "(el = None \<or> (\<exists>e. el = Some e \<and> (check_app w e = None \<or>
        (\<exists>d. check_app w e = Some d \<and>
           (\<forall>x \<in> set (candidates forced). can_handle_link x d = Inr False))))) \<longrightarrow>
      (u \<noteq> [] \<and> candidates forced = pre' @ m' # post' \<and>
         (\<forall>x \<in> set pre'. can_handle_link x u = Inr False) \<and> can_handle_link m' u = Inr True \<longrightarrow>
           check_url can_handle_link w (Some u) el forced
             = Inr (Some \<lparr> manager_class = m', manager_url = u, manager_embedded = False \<rparr>))
      \<and> (link = None \<or> link = Some [] \<or>
           (\<exists>u. link = Some u \<and> (\<forall>x \<in> set (candidates forced). can_handle_link x u = Inr False)) \<longrightarrow>
           check_url can_handle_link w link el forced = Inr None)"
  proof (intro impI conjI)
    assume ft: "el = None \<or> (\<exists>e. el = Some e \<and> (check_app w e = None \<or>
        (\<exists>d. check_app w e = Some d \<and>
           (\<forall>x \<in> set (candidates forced). can_handle_link x d = Inr False))))"
    note raw = check_url_falls_through [OF ft]
    {
      assume h: "u \<noteq> [] \<and> candidates forced = pre' @ m' # post' \<and>
         (\<forall>x \<in> set pre'. can_handle_link x u = Inr False) \<and> can_handle_link m' u = Inr True"
      then have a: "u \<noteq> []" and b: "candidates forced = pre' @ m' # post'"
        and c: "\<forall>x \<in> set pre'. can_handle_link x u = Inr False"
        and d: "can_handle_link m' u = Inr True"
        by blast+
      show "check_url can_handle_link w (Some u) el forced
          = Inr (Some \<lparr> manager_class = m', manager_url = u, manager_embedded = False \<rparr>)"
        unfolding raw
        by (rule check_raw_url_first [where can_handle_link = can_handle_link and u = u, OF a b c d])
    }
    {
      assume "link = None \<or> link = Some [] \<or>
           (\<exists>u. link = Some u \<and> (\<forall>x \<in> set (candidates forced). can_handle_link x u = Inr False))"
      then show "check_url can_handle_link w link el forced = Inr None"
        unfolding raw by (rule check_raw_url_none)
    }
  qed
  show ?thesis
    by (rule conjI [OF 1 conjI [OF 2 conjI [OF 3 4]]])
qed

theorem check_url_dispatch_witness:
  "(check_app (dumping ''gh-releases-zsync|acme|widget|latest|widget-*.AppImage.zsync'')
        \<lparr> file_path = ''/opt/widget.AppImage'' \<rparr>
      = Some ''gh-releases-zsync|acme|widget|latest|widget-*.AppImage.zsync''
     \<and> candidates None = [StaticFileUpdater, DynamicUpdater] @ GithubUpdater # []
     \<and> sample_can_handle_link StaticFileUpdater
          ''gh-releases-zsync|acme|widget|latest|widget-*.AppImage.zsync'' = Inr False
     \<and> sample_can_handle_link DynamicUpdater
          ''gh-releases-zsync|acme|widget|latest|widget-*.AppImage.zsync'' = Inr False
     \<and> sample_can_handle_link GithubUpdater
          ''gh-releases-zsync|acme|widget|latest|widget-*.AppImage.zsync'' = Inr True
     \<and> sample_can_handle_link DynamicUpdater ''https://example.org/widget.AppImage'' = Inr True
     \<and> check_url sample_can_handle_link
          (dumping ''gh-releases-zsync|acme|widget|latest|widget-*.AppImage.zsync'')
          (Some ''https://example.org/widget.AppImage'')
          (Some \<lparr> file_path = ''/opt/widget.AppImage'' \<rparr>) None
        = Inr (Some \<lparr> manager_class = GithubUpdater,
             manager_url = ''gh-releases-zsync|acme|widget|latest|widget-*.AppImage.zsync'',
             manager_embedded = True \<rparr>))
   \<and> (check_app (dumping ''nothing'') \<lparr> file_path = ''/opt/widget.AppImage'' \<rparr> = None
     \<and> sample_can_handle_link StaticFileUpdater ''https://example.org/widget.AppImage'' = Inr False
     \<and> check_url sample_can_handle_link (dumping ''nothing'')
          (Some ''https://example.org/widget.AppImage'')
          (Some \<lparr> file_path = ''/opt/widget.AppImage'' \<rparr>) None
        = Inr (Some \<lparr> manager_class = DynamicUpdater,
             manager_url = ''https://example.org/widget.AppImage'', manager_embedded = False \<rparr>))
   \<and> (candidates (Some GithubUpdater) = [GithubUpdater]
     \<and> sample_can_handle_link GithubUpdater ''https://example.org/widget.AppImage'' = Inr False
     \<and> check_url sample_can_handle_link (dumping ''nothing'')
          (Some ''https://example.org/widget.AppImage'')
          (Some \<lparr> file_path = ''/opt/widget.AppImage'' \<rparr>) (Some GithubUpdater)
        = Inr None)"
proof -
  let ?d = "''gh-releases-zsync|acme|widget|latest|widget-*.AppImage.zsync''"
  let ?u = "''https://example.org/widget.AppImage''"
  let ?e = "\<lparr> file_path = ''/opt/widget.AppImage'' \<rparr>"
  let ?chl = sample_can_handle_link
  have app: "check_app (dumping ?d) ?e = Some ?d"
    by (simp add: check_app_def dumping_def offline_def flatten_def newline_def startswith_def
        strip_def py_isspace_def)
  have noapp: "check_app (dumping ''nothing'') ?e = None"
    by (simp add: check_app_def dumping_def offline_def flatten_def newline_def startswith_def
        search_link_def)
  have sd: "?chl StaticFileUpdater ?d = Inr False" and dd: "?chl DynamicUpdater ?d = Inr False"
    and su: "?chl StaticFileUpdater ?u = Inr False" and du: "?chl DynamicUpdater ?u = Inr True"
    by (simp_all add: sample_can_handle_link_def startswith_def)
  have gd: "?chl GithubUpdater ?d = Inr True"
    by (simp add: sample_can_handle_link_def github_can_handle_link_def get_url_data_def
        startswith_def split_items_def)
  have gu: "?chl GithubUpdater ?u = Inr False"
    by (simp add: sample_can_handle_link_def github_can_handle_link_def get_url_data_def
        startswith_def urlsplit_def netloc_end_def unsafe_url_byte_def)
  note t = check_url_dispatch [where can_handle_link = ?chl]
  have c2: "candidates None = [StaticFileUpdater, DynamicUpdater] @ GithubUpdater # []"
    using t [THEN conjunct2, THEN conjunct1] by simp
  have c2': "candidates None = [StaticFileUpdater] @ DynamicUpdater # [GithubUpdater]"
    using t [THEN conjunct2, THEN conjunct1] by simp
  have c1: "candidates (Some GithubUpdater) = [GithubUpdater]"
    using t [THEN conjunct1] .
  have r1: "check_url ?chl (dumping ?d) (Some ?u) (Some ?e) None
      = Inr (Some \<lparr> manager_class = GithubUpdater, manager_url = ?d, manager_embedded = True \<rparr>)"
    by (rule t [THEN conjunct2, THEN conjunct2, THEN conjunct1, rule_format,
          of _ _ _ _ "[StaticFileUpdater, DynamicUpdater]" _ "[]"])
      (simp add: app c2 sd dd gd)
  have ft: "Some ?e = None \<or> (\<exists>e. Some ?e = Some e \<and> (check_app (dumping ''nothing'') e = None \<or>
      (\<exists>d. check_app (dumping ''nothing'') e = Some d \<and>
         (\<forall>x \<in> set (candidates forced). ?chl x d = Inr False))))" for forced
    using noapp by simp
  have r2: "check_url ?chl (dumping ''nothing'') (Some ?u) (Some ?e) None
      = Inr (Some \<lparr> manager_class = DynamicUpdater, manager_url = ?u, manager_embedded = False \<rparr>)"
    by (rule t [THEN conjunct2, THEN conjunct2, THEN conjunct2, rule_format, THEN conjunct1, rule_format,
          OF ft, of _ _ "[StaticFileUpdater]" _ "[GithubUpdater]"])
      (simp add: c2' su du)
  have r3: "check_url ?chl (dumping ''nothing'') (Some ?u) (Some ?e) (Some GithubUpdater) = Inr None"
    by (rule t [THEN conjunct2, THEN conjunct2, THEN conjunct2, rule_format, THEN conjunct2, rule_format,
          OF ft])
      (simp add: c1 gu)
  from app c2 sd dd gd du r1 noapp su r2 c1 gu r3 show ?thesis by blast
qed

end
